theory Spec2Isabelle
  imports Complex_Main
begin

section \<open>Conventions of the embedding\<close>

text \<open>
  The program is Python. Its values are embedded as follows.
  \<^item> A \<open>float\<close> is a \<open>real\<close>: arithmetic is exact, rounding is not modelled. The three
    values \<open>0\<close>, \<open>100\<close> and \<open>-5\<close> that the code writes as \<open>int\<close> literals compare
    with floats by value, as they do here.
  \<^item> A \<open>str\<close> naming a user or an action is a \<open>string\<close>. A \<open>str\<close> holding message
    text is the list of its Unicode code points (\<open>ustr\<close>, each an \<open>int\<close>), because the keyword tables of
    \<open>affection_system.py\<close> hold Japanese words; \<open>u\<close> turns an ASCII literal into
    code points.
  \<^item> A naive \<open>datetime\<close> is the number of microseconds on the local wall clock
    since a fixed origin, a \<open>timedelta\<close> the difference of two such numbers.
  \<^item> A \<open>Dict\<close> is a map.
\<close>

type_synonym ustr = "int list"
type_synonym datetime = int
type_synonym timedelta = int
type_synonym context_dict = "string \<rightharpoonup> real"

definition u :: "string \<Rightarrow> ustr" where
  "u s = map of_char s"

definition timedelta_minutes :: "int \<Rightarrow> timedelta" where
  "timedelta_minutes m = m * 60000000"

definition usec_per_day :: int where
  "usec_per_day = 86400000000"

definition td_days :: "timedelta \<Rightarrow> int" where
  \<comment> \<open>\<open>timedelta.days\<close>: a timedelta is normalised with \<open>0 \<le> seconds < 86400\<close>, so the
      days are the floor of the quotient.\<close>
  "td_days d = d div usec_per_day"

definition td_seconds :: "timedelta \<Rightarrow> int" where
  \<comment> \<open>\<open>timedelta.seconds\<close>: what is left of the last day, in whole seconds.\<close>
  "td_seconds d = (d mod usec_per_day) div 1000000"

definition dt_hour :: "datetime \<Rightarrow> int" where
  "dt_hour t = (t div 3600000000) mod 24"

section \<open>affection\_system.py: AffectionState\<close>

text \<open>The enum \<open>AffectionLevel\<close> with the bounds of its bands, and \<open>get_level\<close>.\<close>

datatype AffectionLevel = STRANGER | ACQUAINTANCE | FRIEND | CLOSE_FRIEND | CRUSH | LOVER | SOULMATE

fun min_val :: "AffectionLevel \<Rightarrow> real" where
  "min_val STRANGER = 0" | "min_val ACQUAINTANCE = 10" | "min_val FRIEND = 30"
| "min_val CLOSE_FRIEND = 50" | "min_val CRUSH = 70" | "min_val LOVER = 85"
| "min_val SOULMATE = 95"

fun max_val :: "AffectionLevel \<Rightarrow> real" where
  "max_val STRANGER = 10" | "max_val ACQUAINTANCE = 30" | "max_val FRIEND = 50"
| "max_val CLOSE_FRIEND = 70" | "max_val CRUSH = 85" | "max_val LOVER = 95"
| "max_val SOULMATE = 100"

definition get_level :: "real \<Rightarrow> AffectionLevel" where
  "get_level sc =
     (case find (\<lambda>level. min_val level \<le> sc \<and> sc < max_val level)
             [STRANGER, ACQUAINTANCE, FRIEND, CLOSE_FRIEND, CRUSH, LOVER, SOULMATE] of
        Some level \<Rightarrow> level
      | None \<Rightarrow> if sc \<ge> 100 then SOULMATE else STRANGER)"

record AffectionState =
  user_id :: string
  score :: real
  last_interaction :: datetime
  interaction_count :: int
  consecutive_positive :: int
  consecutive_negative :: int
  current_mood :: string
  mood_intensity :: real
  mood_reason :: string
  is_ignoring :: bool
  ignore_until :: "datetime option"
  special_events :: "(string \<times> ustr \<times> datetime) list"
  total_messages :: int
  positive_interactions :: int
  negative_interactions :: int
  gifts_received :: int
  dates_had :: int

definition new_AffectionState :: "string \<Rightarrow> datetime \<Rightarrow> AffectionState" where
  \<comment> \<open>The dataclass constructor \<open>AffectionState(user_id=uid)\<close>; \<open>t\<close> is the reading of
      \<open>datetime.now\<close> that the default factory of \<open>last_interaction\<close> takes.\<close>
  "new_AffectionState uid t =
     \<lparr> user_id = uid, score = 20.0, last_interaction = t, interaction_count = 0,
       consecutive_positive = 0, consecutive_negative = 0,
       current_mood = ''neutral'', mood_intensity = 0.5, mood_reason = [],
       is_ignoring = False, ignore_until = None, special_events = [],
       total_messages = 0, positive_interactions = 0, negative_interactions = 0,
       gifts_received = 0, dates_had = 0 \<rparr>"

section \<open>affection\_system.py: AffectionCalculator\<close>

definition POSITIVE_FACTORS :: "(string \<times> real) list" where
  "POSITIVE_FACTORS =
     [(''compliment'', 2.0), (''gift'', 5.0), (''remember_detail'', 3.0),
      (''share_feeling'', 1.5), (''ask_about_day'', 1.0), (''good_morning_night'', 1.5),
      (''initiate_conversation'', 1.0), (''quick_response'', 0.5),
      (''long_conversation'', 2.0), (''use_nickname'', 1.0), (''apologize'', 2.0),
      (''keep_promise'', 3.0)]"

definition NEGATIVE_FACTORS :: "(string \<times> real) list" where
  "NEGATIVE_FACTORS =
     [(''ignore'', -3.0), (''forget_important'', -4.0), (''mention_other_girl'', -5.0),
      (''rude'', -5.0), (''lie'', -8.0), (''break_promise'', -6.0),
      (''late_response_hours'', -0.5), (''one_word_reply'', -0.5), (''insult'', -10.0),
      (''pressure'', -3.0)]"

definition DECAY_RATE :: real where
  "DECAY_RATE = 0.3"

definition DECAY_THRESHOLD_DAYS :: real where
  "DECAY_THRESHOLD_DAYS = 2"

definition ctx_get :: "context_dict \<Rightarrow> string \<Rightarrow> real \<Rightarrow> real" where
  \<comment> \<open>\<open>context.get(key, default)\<close>\<close>
  "ctx_get c k d = (case c k of None \<Rightarrow> d | Some v \<Rightarrow> v)"

definition ctx_or_empty :: "context_dict option \<Rightarrow> context_dict" where
  \<comment> \<open>\<open>context or {}\<close>: \<open>None\<close> and the empty dict both give the empty dict.\<close>
  "ctx_or_empty c = (case c of None \<Rightarrow> Map.empty | Some m \<Rightarrow> m)"

definition calculate_change :: "string \<Rightarrow> real \<Rightarrow> context_dict option \<Rightarrow> real" where
  "calculate_change action current_score context0 =
     (let context = ctx_or_empty context0;
          change =
            (case map_of POSITIVE_FACTORS action of
               Some f \<Rightarrow>
                 (let change = f;
                      change = (if current_score > 80 then change * 0.7
                                else if current_score > 60 then change * 0.85
                                else change);
                      consecutive = ctx_get context ''consecutive_positive'' 0
                  in if consecutive > 3 then change * 1.2 else change)
             | None \<Rightarrow>
                 (case map_of NEGATIVE_FACTORS action of
                    Some f \<Rightarrow>
                      (let change = f;
                           change = (if current_score < 30 then change * 1.3 else change);
                           consecutive = ctx_get context ''consecutive_negative'' 0
                       in if consecutive > 2 then change * 1.3 else change)
                  | None \<Rightarrow>
                      (if action = ''decay'' then
                         (let days_inactive = ctx_get context ''days_inactive'' 0
                          in if days_inactive \<ge> DECAY_THRESHOLD_DAYS
                             then - DECAY_RATE * (days_inactive - DECAY_THRESHOLD_DAYS + 1)
                             else 0.0)
                       else 0.0)));
          new_score = max 0 (min 100 (current_score + change));
          actual_change = new_score - current_score
      in actual_change)"

subsection \<open>The contract of section 4.1, in the specification's words\<close>

definition spec_clamp :: "real \<Rightarrow> real \<Rightarrow> real \<Rightarrow> real" where
  "spec_clamp x lo hi = (if x < lo then lo else if x > hi then hi else x)"

definition spec_positive_delta :: "real \<Rightarrow> real \<Rightarrow> real \<Rightarrow> real" where
  \<comment> \<open>A positive table value, damped at a high score and amplified after more than
      three positive interactions in a row.\<close>
  "spec_positive_delta table_value current_score cp =
     table_value
     * (if current_score > 80 then 0.7 else if current_score > 60 then 0.85 else 1)
     * (if cp > 3 then 1.2 else 1)"

definition spec_negative_delta :: "real \<Rightarrow> real \<Rightarrow> real \<Rightarrow> real" where
  \<comment> \<open>A negative table value, amplified at a low score and again after more than two
      negative interactions in a row.\<close>
  "spec_negative_delta table_value current_score cn =
     table_value
     * (if current_score < 30 then 1.3 else 1)
     * (if cn > 2 then 1.3 else 1)"

definition spec_raw_delta :: "string \<Rightarrow> real \<Rightarrow> context_dict \<Rightarrow> real" where
  "spec_raw_delta action current_score ctx =
     (if action \<in> fst ` set POSITIVE_FACTORS then
        spec_positive_delta (the (map_of POSITIVE_FACTORS action)) current_score
          (ctx_get ctx ''consecutive_positive'' 0)
      else if action \<in> fst ` set NEGATIVE_FACTORS then
        spec_negative_delta (the (map_of NEGATIVE_FACTORS action)) current_score
          (ctx_get ctx ''consecutive_negative'' 0)
      else if action = ''decay'' then
        (if ctx_get ctx ''days_inactive'' 0 \<ge> 2
         then - 0.3 * (ctx_get ctx ''days_inactive'' 0 - 2 + 1) else 0)
      else 0)"

subsection \<open>analyze\_message\_sentiment\<close>

fun starts_with :: "ustr \<Rightarrow> ustr \<Rightarrow> bool" where
  "starts_with xs [] = True"
| "starts_with [] (y # ys) = False"
| "starts_with (x # xs) (y # ys) = (x = y \<and> starts_with xs ys)"

fun py_in :: "ustr \<Rightarrow> ustr \<Rightarrow> bool" where
  \<comment> \<open>\<open>word in message\<close> on two \<open>str\<close>: \<open>word\<close> occurs as a contiguous run.\<close>
  "py_in w [] = (w = [])"
| "py_in w (c # cs) = (starts_with (c # cs) w \<or> py_in w cs)"

text \<open>
  The keyword tables, lines 169 to 185 of the source. The Japanese entries are given by
  their code points; the ASCII ones are written out.
\<close>

definition positive_words :: "ustr list" where
  "positive_words =
     [[32186, 40599], [21487, 24859, 12356], [36066, 12356], [20778, 12375, 12356],
      [35242, 20999], [22909, 12365], [24859], [24819], [33391, 12356],
      [32032, 26228, 12425, 12375, 12356], [20778, 31168], [12377, 12372, 12356],
      [12354, 12426, 12364, 12392, 12358], [24863, 35613], [23305, 12375, 12356],
      [24184, 12379], [32032, 25973],
      u ''miss'', u ''love'', u ''like'', u ''beautiful'', u ''cute'', u ''smart'',
      u ''thanks'', u ''happy'', u ''glad'', u ''wonderful'', u ''amazing'', u ''great'',
      u ''good'']"

definition negative_words :: "ustr list" where
  "negative_words =
     [[37276, 12356], [12496, 12459], [39340, 40575], [23244, 12356], [24974, 12356],
      [20986, 12390, 34892, 12369], [12358, 12427, 12373, 12356], [24746, 12356],
      [12480, 12513], [24858, 12363], [12388, 12414, 12425, 12394, 12356],
      [27671, 25345, 12385, 24746, 12356], [22833, 26395], [24594, 12426],
      [24996, 12426], [24754, 12375, 12356],
      u ''hate'', u ''stupid'', u ''ugly'', u ''boring'', u ''annoying'', u ''bad'',
      u ''terrible'', u ''awful'', u ''disappointed'', u ''angry'']"

definition other_girl_words :: "ustr list" where
  "other_girl_words =
     [[20182, 12398, 22899, 12398, 23376], [21029, 12398, 22899, 12398, 23376],
      [24444, 22899], [20803, 12459, 12494], u ''ex'', u ''other girl'']"

definition count_in :: "ustr list \<Rightarrow> ustr \<Rightarrow> int" where
  \<comment> \<open>\<open>sum(1 for word in words if word in message)\<close>\<close>
  "count_in ws message = int (length (filter (\<lambda>word. py_in word message) ws))"

definition analyze_message_sentiment :: "(ustr \<Rightarrow> ustr) \<Rightarrow> ustr \<Rightarrow> string \<times> real" where
  \<comment> \<open>\<open>lower\<close> stands for \<open>str.lower\<close> of the Python runtime.\<close>
  "analyze_message_sentiment lower message0 =
     (let message = lower message0;
          positive_count = count_in positive_words message;
          negative_count = count_in negative_words message;
          other_girl_count = count_in other_girl_words message
      in if other_girl_count > 0 then (''mention_other_girl'', -5.0)
         else if positive_count > negative_count
           then (''compliment'', min 2.0 (real_of_int positive_count * 0.5))
         else if negative_count > positive_count
           then (''rude'', max (-5.0) (- real_of_int negative_count * 1.0))
         else (''neutral'', 0.0))"

definition ascii_lower :: "ustr \<Rightarrow> ustr" where
  \<comment> \<open>\<open>str.lower\<close> on ASCII text: \<open>A\<close> to \<open>Z\<close> go to \<open>a\<close> to \<open>z\<close>.\<close>
  "ascii_lower s = map (\<lambda>c. if 65 \<le> c \<and> c \<le> 90 then c + 32 else c) s"

section \<open>affection\_system.py: AffectionSystem\<close>

text \<open>
  \<open>self._states\<close> maps a user id to an \<open>AffectionState\<close> object, and the methods
  mutate that object through local references to it. The embedding keeps the objects in
  a store: \<open>states\<close> maps a user id to an address, \<open>heap\<close> gives the contents at an
  address, and \<open>next_ref\<close> is the first address not yet allocated (cells from there on
  hold no object and are never read). Every call of \<open>datetime.now\<close> is a reading of a
  clock \<open>clk\<close>: the \<open>n\<close>-th call returns \<open>clk n\<close>, and \<open>now_calls\<close> counts the calls.
  \<open>_save_states\<close> writes a snapshot to disk, swallows every error, and changes nothing
  in memory; it is left out.
\<close>

type_synonym ref = nat
type_synonym clock = "nat \<Rightarrow> datetime"

record world =
  states :: "string \<rightharpoonup> ref"
  heap :: "ref \<Rightarrow> AffectionState"
  next_ref :: ref
  now_calls :: nat

definition init_world :: world where
  \<comment> \<open>\<open>AffectionSystem.__init__\<close> with no state file on disk.\<close>
  "init_world =
     \<lparr> states = Map.empty, heap = (\<lambda>_. new_AffectionState [] 0), next_ref = 0,
       now_calls = 0 \<rparr>"

definition datetime_now :: "clock \<Rightarrow> world \<Rightarrow> datetime \<times> world" where
  "datetime_now clk w = (clk (now_calls w), w\<lparr>now_calls := Suc (now_calls w)\<rparr>)"

definition get_state :: "clock \<Rightarrow> string \<Rightarrow> world \<Rightarrow> ref \<times> world" where
  "get_state clk uid w =
     (case states w uid of
        Some r \<Rightarrow> (r, w)
      | None \<Rightarrow>
          (let (t, w1) = datetime_now clk w;
               r = next_ref w1
           in (r, w1\<lparr>states := (states w1)(uid \<mapsto> r),
                      heap := (heap w1)(r := new_AffectionState uid t),
                      next_ref := Suc r\<rparr>)))"

datatype feedback =
    Still_angry int  \<comment> \<open>line 274, with the minutes left\<close>
  | Rise_big         \<comment> \<open>line 381\<close>
  | Rise             \<comment> \<open>line 383\<close>
  | Rise_small       \<comment> \<open>line 385\<close>
  | Fall_big         \<comment> \<open>line 387\<close>
  | Fall             \<comment> \<open>line 389\<close>
  | Fall_small       \<comment> \<open>line 391\<close>
  | No_feedback      \<comment> \<open>line 393, the empty string\<close>

definition generate_feedback :: "real \<Rightarrow> real \<Rightarrow> string \<Rightarrow> feedback" where
  "generate_feedback old_score new_score action =
     (let change = new_score - old_score
      in if change > 3 then Rise_big
         else if change > 1 then Rise
         else if change > 0 then Rise_small
         else if change < -3 then Fall_big
         else if change < -1 then Fall
         else if change < 0 then Fall_small
         else No_feedback)"

definition update_counters :: "clock \<Rightarrow> real \<Rightarrow> AffectionState \<Rightarrow> world \<Rightarrow> AffectionState \<times> world" where
  \<comment> \<open>Lines 294 to 306: the consecutive counters and the sulk trigger.\<close>
  "update_counters clk change s w =
     (if change > 0 then
        (s\<lparr>consecutive_positive := consecutive_positive s + 1,
           consecutive_negative := 0,
           positive_interactions := positive_interactions s + 1\<rparr>, w)
      else if change < 0 then
        (let s1 = s\<lparr>consecutive_negative := consecutive_negative s + 1,
                     consecutive_positive := 0,
                     negative_interactions := negative_interactions s + 1\<rparr>
         in if change \<le> -5 \<and> score s1 < 50 then
              (let (t, w1) = datetime_now clk w
               in (s1\<lparr>is_ignoring := True,
                      ignore_until := Some (t + timedelta_minutes 30)\<rparr>, w1))
            else (s1, w))
      else (s, w))"

definition injected :: "context_dict \<Rightarrow> AffectionState \<Rightarrow> context_dict" where
  \<comment> \<open>Lines 280 and 281: the two counters are written into the context.\<close>
  "injected c s = c(''consecutive_positive'' \<mapsto> real_of_int (consecutive_positive s),
                    ''consecutive_negative'' \<mapsto> real_of_int (consecutive_negative s))"

definition update_apply :: "clock \<Rightarrow> ref \<Rightarrow> string \<Rightarrow> context_dict \<Rightarrow> world \<Rightarrow> (real \<times> feedback) \<times> world" where
  \<comment> \<open>Lines 279 to 314. The object at \<open>st\<close> is read once, changed field by field as the
      source does, and written back; nothing else reads the store in between.\<close>
  "update_apply clk st action context w =
     (let s = heap w st;
          context1 = injected context s;
          change = calculate_change action (score s) (Some context1);
          old_score = score s;
          s1 = s\<lparr>score := max 0 (min 100 (score s + change))\<rparr>;
          (t, w1) = datetime_now clk w;
          s2 = s1\<lparr>last_interaction := t,
                  interaction_count := interaction_count s1 + 1,
                  total_messages := total_messages s1 + 1\<rparr>;
          (s3, w2) = update_counters clk change s2 w1;
          w3 = w2\<lparr>heap := (heap w2)(st := s3)\<rparr>;
          fb = generate_feedback old_score (score s3) action
      in ((score s3, fb), w3))"

definition update :: "clock \<Rightarrow> string \<Rightarrow> string \<Rightarrow> context_dict option \<Rightarrow> world \<Rightarrow> (real \<times> feedback) \<times> world" where
  "update clk uid action context0 w0 =
     (let (st, w1) = get_state clk uid w0;
          context = ctx_or_empty context0;
          s = heap w1 st
      in case (if is_ignoring s then ignore_until s else None) of
           Some until \<Rightarrow>
             (let (t1, w2) = datetime_now clk w1
              in if t1 < until then
                   (let (t2, w3) = datetime_now clk w2
                    in ((score s, Still_angry (td_seconds (until - t2) div 60)), w3))
                 else
                   update_apply clk st action context
                     (w2\<lparr>heap := (heap w2)(st := s\<lparr>is_ignoring := False,
                                                    ignore_until := None\<rparr>)\<rparr>))
         | None \<Rightarrow> update_apply clk st action context w1)"

fun apply_actions :: "clock \<Rightarrow> string \<Rightarrow> string list \<Rightarrow> world \<Rightarrow> world" where
  \<comment> \<open>The loop of lines 347 to 349; \<open>total_change\<close> is never read.\<close>
  "apply_actions clk uid [] w = w"
| "apply_actions clk uid (action # actions) w =
     apply_actions clk uid actions (snd (update clk uid action None w))"

definition apply_decay :: "clock \<Rightarrow> string \<Rightarrow> world \<Rightarrow> world" where
  "apply_decay clk uid w0 =
     (let (st, w1) = get_state clk uid w0;
          (t, w2) = datetime_now clk w1;
          days_inactive = td_days (t - last_interaction (heap w2 st))
      in if real_of_int days_inactive \<ge> DECAY_THRESHOLD_DAYS
         then snd (update clk uid ''decay''
                     (Some [''days_inactive'' \<mapsto> real_of_int days_inactive]) w2)
         else w2)"

datatype phrase =
    Glad_to_hear    \<comment> \<open>line 407\<close>
  | A_bit_cross     \<comment> \<open>line 409\<close>
  | A_bit_sad       \<comment> \<open>line 411\<close>
  | Thoughtful      \<comment> \<open>line 413\<close>
  | Fast_reply      \<comment> \<open>line 415\<close>

definition generate_interaction_feedback :: "string list \<Rightarrow> phrase list" where
  \<comment> \<open>The phrases that \<open>" ".join\<close> puts together; no action gives the empty string.\<close>
  "generate_interaction_feedback actions =
     (if actions = [] then []
      else (if ''compliment'' \<in> set actions then [Glad_to_hear] else [])
         @ (if ''mention_other_girl'' \<in> set actions then [A_bit_cross] else [])
         @ (if ''rude'' \<in> set actions then [A_bit_sad] else [])
         @ (if ''good_morning_night'' \<in> set actions then [Thoughtful] else [])
         @ (if ''quick_response'' \<in> set actions then [Fast_reply] else []))"

definition greeting_actions :: "ustr \<Rightarrow> int \<Rightarrow> string list" where
  \<comment> \<open>Lines 334 to 339: the greeting keywords, sought in the message as it was sent.\<close>
  "greeting_actions message hour =
     (if py_in [12362, 12399, 12424, 12358] message \<or> py_in [12362, 26089, 12358] message
      then (if 5 \<le> hour \<and> hour \<le> 10 then [''good_morning_night''] else [])
      else if py_in [12362, 12420, 12377, 12415] message \<or> py_in [12362, 20241, 12415] message
      then (if 20 \<le> hour \<and> hour \<le> 24 then [''good_morning_night''] else [])
      else [])"

definition triggered_actions :: "(ustr \<Rightarrow> ustr) \<Rightarrow> ustr \<Rightarrow> int \<Rightarrow> real option \<Rightarrow> string list" where
  \<comment> \<open>Lines 324 to 343: the actions a message triggers, in the order they are appended.\<close>
  "triggered_actions lower message hour response_time_seconds =
     (let (sentiment_action, sentiment_score) = analyze_message_sentiment lower message
      in (if sentiment_action \<noteq> ''neutral'' then [sentiment_action] else [])
         @ greeting_actions message hour
         @ (case response_time_seconds of
              None \<Rightarrow> []
            | Some r \<Rightarrow> if r \<noteq> 0 \<and> r < 60 then [''quick_response''] else []))"

definition process_message ::
  "(ustr \<Rightarrow> ustr) \<Rightarrow> clock \<Rightarrow> string \<Rightarrow> ustr \<Rightarrow> real option \<Rightarrow> world
     \<Rightarrow> (real \<times> phrase list \<times> string list) \<times> world" where
  "process_message lower clk uid message response_time_seconds w0 =
     (let (st, w1) = get_state clk uid w0;
          (t, w2) = datetime_now clk w1;
          hour = dt_hour t;
          actions = triggered_actions lower message hour response_time_seconds;
          w3 = apply_actions clk uid actions w2;
          w4 = (if actions = [] then snd (update clk uid ''base_message'' None w3) else w3);
          w5 = apply_decay clk uid w4;
          fb = generate_interaction_feedback actions
      in ((score (heap w5 st), fb, actions), w5))"

section \<open>memory\_system.py: ShortTermMemory\<close>

text \<open>
  The fields \<open>id\<close> and \<open>user_id\<close> of \<open>ConversationTurn\<close> are \<open>id_t\<close> and
  \<open>user_id_t\<close> here. The two readings of \<open>datetime.now\<close> that \<open>add_turn\<close> takes
  are its arguments \<open>t1\<close> and \<open>t2\<close>.
\<close>

record ConversationTurn =
  id_t :: string
  user_message :: ustr
  bot_response :: ustr
  timestamp :: datetime
  user_id_t :: string
  emotional_context :: "string \<rightharpoonup> string"
  topics :: "ustr list"

record ShortTermMemory =
  max_turns :: int
  conversations :: "string \<rightharpoonup> ConversationTurn list"

definition ShortTermMemory_init :: "int \<Rightarrow> ShortTermMemory" where
  "ShortTermMemory_init n = \<lparr> max_turns = n, conversations = Map.empty \<rparr>"

definition slice_from :: "int \<Rightarrow> 'a list \<Rightarrow> 'a list" where
  \<comment> \<open>The Python slice \<open>xs[i:]\<close>: a negative \<open>i\<close> counts from the end, and the start is
      clipped to the list.\<close>
  "slice_from i xs =
     (let n = int (length xs);
          start = (if i < 0 then max (n + i) 0 else min i n)
      in drop (nat start) xs)"

definition new_turn ::
  "(string \<Rightarrow> datetime \<Rightarrow> string) \<Rightarrow> datetime \<Rightarrow> datetime \<Rightarrow> string \<Rightarrow> ustr \<Rightarrow> ustr
     \<Rightarrow> (string \<rightharpoonup> string) option \<Rightarrow> ustr list option \<Rightarrow> ConversationTurn" where
  \<comment> \<open>Lines 94 to 102. \<open>md5_16 uid t\<close> stands for the first 16 hex digits of the MD5 of
      the user id and the ISO form of \<open>t\<close>; \<open>t1\<close> and \<open>t2\<close> are the two clock readings.\<close>
  "new_turn md5_16 t1 t2 uid user_msg bot_resp emo tops =
     \<lparr> id_t = md5_16 uid t1, user_message = user_msg, bot_response = bot_resp,
       timestamp = t2, user_id_t = uid,
       emotional_context = (case emo of None \<Rightarrow> Map.empty | Some e \<Rightarrow> e),
       topics = (case tops of None \<Rightarrow> [] | Some ts \<Rightarrow> ts) \<rparr>"

definition add_turn ::
  "(string \<Rightarrow> datetime \<Rightarrow> string) \<Rightarrow> datetime \<Rightarrow> datetime \<Rightarrow> string \<Rightarrow> ustr \<Rightarrow> ustr
     \<Rightarrow> (string \<rightharpoonup> string) option \<Rightarrow> ustr list option \<Rightarrow> ShortTermMemory
     \<Rightarrow> ShortTermMemory" where
  "add_turn md5_16 t1 t2 uid user_msg bot_resp emo tops mem =
     (let convs = (case conversations mem uid of
                     None \<Rightarrow> (conversations mem)(uid \<mapsto> [])
                   | Some b \<Rightarrow> conversations mem);
          turn = new_turn md5_16 t1 t2 uid user_msg bot_resp emo tops;
          buf = (case convs uid of None \<Rightarrow> [] | Some b \<Rightarrow> b) @ [turn];
          convs1 = convs(uid \<mapsto> buf)
      in if int (length buf) > max_turns mem
         then mem\<lparr>conversations := convs1(uid \<mapsto> slice_from (- max_turns mem) buf)\<rparr>
         else mem\<lparr>conversations := convs1\<rparr>)"

definition get_recent_context :: "ShortTermMemory \<Rightarrow> string \<Rightarrow> int \<Rightarrow> ConversationTurn list" where
  "get_recent_context mem uid n_turns =
     (let turns = (case conversations mem uid of None \<Rightarrow> [] | Some ts \<Rightarrow> ts)
      in if turns \<noteq> [] then slice_from (- n_turns) turns else [])"

section \<open>knowledge\_system.py: KnowledgeIntegrator\<close>

text \<open>
  The field \<open>id\<close> of \<open>LearnedInsight\<close> is \<open>id_i\<close> here. The learned-knowledge
  document is a dict from the name of a list to the list of contents. The file
  \<open>learned_knowledge.yaml\<close> is \<open>None\<close> while it does not exist and else holds YAML
  text, of a type \<open>'y\<close> that is left open. \<open>yaml_dump\<close> and \<open>yaml_safe_load\<close> stand
  for \<open>yaml.dump\<close> and \<open>yaml.safe_load\<close> of PyYAML, which the repository calls and
  does not contain: the first writes a document as text, the second reads text as a
  document. Nothing is assumed of them; in particular reading back what was written
  need not return the document that was written.
\<close>

record LearnedInsight =
  id_i :: string
  original_knowledge_ids :: "string list"
  insight_type :: string
  content :: ustr
  confidence :: real
  created_at :: datetime
  verified :: bool
  application_count :: int

type_synonym learned_data = "string \<rightharpoonup> ustr list"

fun group_loop ::
  "LearnedInsight list \<Rightarrow> (string \<rightharpoonup> LearnedInsight list) \<Rightarrow> (string \<rightharpoonup> LearnedInsight list)" where
  "group_loop [] grouped = grouped"
| "group_loop (insight # rest) grouped =
     group_loop rest
       (case grouped (insight_type insight) of
          None \<Rightarrow> grouped(insight_type insight \<mapsto> [insight])
        | Some l \<Rightarrow> grouped(insight_type insight \<mapsto> l @ [insight]))"

definition group_by_type :: "LearnedInsight list \<Rightarrow> (string \<rightharpoonup> LearnedInsight list)" where
  "group_by_type insights = group_loop insights Map.empty"

fun merge_bucket :: "ustr list \<Rightarrow> LearnedInsight list \<Rightarrow> ustr list" where
  \<comment> \<open>The inner \<open>for\<close> of each block: append the content unless the list holds it.\<close>
  "merge_bucket l [] = l"
| "merge_bucket l (insight # rest) =
     merge_bucket (if content insight \<notin> set l then l @ [content insight] else l) rest"

definition integrate_type ::
  "string \<Rightarrow> string \<Rightarrow> (string \<rightharpoonup> LearnedInsight list) \<Rightarrow> learned_data \<Rightarrow> learned_data" where
  \<comment> \<open>One of the four blocks of lines 424 to 449, for insight type \<open>ty\<close> and list \<open>key\<close>.\<close>
  "integrate_type ty key grouped learned =
     (case grouped ty of
        None \<Rightarrow> learned
      | Some insights \<Rightarrow>
          learned(key \<mapsto> merge_bucket (case learned key of None \<Rightarrow> [] | Some l \<Rightarrow> l) insights))"

definition integrate_data :: "LearnedInsight list \<Rightarrow> learned_data \<Rightarrow> learned_data" where
  "integrate_data insights learned_data =
     (let grouped = group_by_type insights;
          d1 = integrate_type ''preference'' ''user_preferences'' grouped learned_data;
          d2 = integrate_type ''fact'' ''user_facts'' grouped d1;
          d3 = integrate_type ''pattern'' ''user_patterns'' grouped d2;
          d4 = integrate_type ''emotion_rule'' ''emotional_rules'' grouped d3
      in d4)"

definition load_learned_knowledge :: "('y \<Rightarrow> learned_data) \<Rightarrow> 'y option \<Rightarrow> learned_data" where
  \<comment> \<open>Lines 465 to 472: no file, or a file that holds nothing, gives the empty dict.\<close>
  "load_learned_knowledge yaml_safe_load yaml_file =
     (case yaml_file of None \<Rightarrow> Map.empty | Some t \<Rightarrow> yaml_safe_load t)"

definition save_learned_knowledge :: "(learned_data \<Rightarrow> 'y) \<Rightarrow> learned_data \<Rightarrow> 'y option" where
  \<comment> \<open>Lines 474 to 479: the file is overwritten with the dump of the document.\<close>
  "save_learned_knowledge yaml_dump d = Some (yaml_dump d)"

definition integrate_insights ::
  "(learned_data \<Rightarrow> 'y) \<Rightarrow> ('y \<Rightarrow> learned_data) \<Rightarrow> LearnedInsight list \<Rightarrow> 'y option
     \<Rightarrow> 'y option" where
  "integrate_insights yaml_dump yaml_safe_load insights yaml_file =
     (let learned_data = load_learned_knowledge yaml_safe_load yaml_file
      in save_learned_knowledge yaml_dump (integrate_data insights learned_data))"

section \<open>Runs and invariants\<close>

text \<open>
  A run is a list of \<open>update\<close> calls, each with its user id, action and context, made
  one after the other. \<open>user_inv P w v\<close> says that the record of user \<open>v\<close>, if the
  system holds one, satisfies \<open>P\<close>.
\<close>

fun run_updates :: "clock \<Rightarrow> (string \<times> string \<times> context_dict option) list \<Rightarrow> world \<Rightarrow> world" where
  "run_updates clk [] w = w"
| "run_updates clk ((uid, action, c) # calls) w =
     run_updates clk calls (snd (update clk uid action c w))"

definition user_inv :: "(AffectionState \<Rightarrow> bool) \<Rightarrow> world \<Rightarrow> string \<Rightarrow> bool" where
  "user_inv P w v = (case states w v of None \<Rightarrow> True | Some r \<Rightarrow> P (heap w r))"

definition score_in_range :: "world \<Rightarrow> string \<Rightarrow> bool" where
  "score_in_range w v = user_inv (\<lambda>s. 0 \<le> score s \<and> score s \<le> 100) w v"

definition user_score :: "world \<Rightarrow> string \<Rightarrow> real option" where
  "user_score w v = map_option (\<lambda>r. score (heap w r)) (states w v)"

definition counters_exclusive :: "world \<Rightarrow> string \<Rightarrow> bool" where
  "counters_exclusive w v =
     user_inv (\<lambda>s. consecutive_positive s = 0 \<or> consecutive_negative s = 0) w v"

definition sulk_consistent :: "world \<Rightarrow> string \<Rightarrow> bool" where
  \<comment> \<open>The flag and the deadline are set together and cleared together.\<close>
  "sulk_consistent w v = user_inv (\<lambda>s. is_ignoring s \<longleftrightarrow> ignore_until s \<noteq> None) w v"

subsection \<open>Notions used to state the properties of the two stores\<close>

text \<open>
  \<open>add_turns\<close> makes one \<open>add_turn\<close> call per entry of a list, for one user;
  \<open>turn_of\<close> is the turn such a call builds; \<open>last_n n xs\<close> are the last \<open>n\<close>
  elements of \<open>xs\<close>; \<open>buffer\<close> is the list of turns held for a user.
  \<open>type_lists\<close> pairs each insight type with the name of its list, and
  \<open>bucket_after\<close> is what one of the four blocks of \<open>integrate_insights\<close> leaves in
  its list.
\<close>

fun add_turns ::
  "(string \<Rightarrow> datetime \<Rightarrow> string) \<Rightarrow> string \<Rightarrow> (datetime \<times> datetime \<times> ustr \<times> ustr) list
     \<Rightarrow> ShortTermMemory \<Rightarrow> ShortTermMemory" where
  "add_turns md5_16 uid [] mem = mem"
| "add_turns md5_16 uid ((t1, t2, user_msg, bot_resp) # rest) mem =
     add_turns md5_16 uid rest (add_turn md5_16 t1 t2 uid user_msg bot_resp None None mem)"

definition turn_of :: "(string \<Rightarrow> datetime \<Rightarrow> string) \<Rightarrow> string \<Rightarrow> datetime \<times> datetime \<times> ustr \<times> ustr \<Rightarrow> ConversationTurn" where
  "turn_of md5_16 uid q = (case q of (t1, t2, user_msg, bot_resp) \<Rightarrow>
     new_turn md5_16 t1 t2 uid user_msg bot_resp None None)"

definition last_n :: "nat \<Rightarrow> 'a list \<Rightarrow> 'a list" where
  "last_n n xs = drop (length xs - n) xs"

definition buffer :: "ShortTermMemory \<Rightarrow> string \<Rightarrow> ConversationTurn list" where
  "buffer mem uid = (case conversations mem uid of None \<Rightarrow> [] | Some b \<Rightarrow> b)"

definition type_lists :: "(string \<times> string) list" where
  "type_lists = [(''preference'', ''user_preferences''), (''fact'', ''user_facts''),
                 (''pattern'', ''user_patterns''), (''emotion_rule'', ''emotional_rules'')]"

definition bucket_after :: "LearnedInsight list option \<Rightarrow> ustr list option \<Rightarrow> ustr list option" where
  "bucket_after grp old =
     (case grp of
        None \<Rightarrow> old
      | Some insights \<Rightarrow> Some (merge_bucket (case old of None \<Rightarrow> [] | Some l \<Rightarrow> l) insights))"

subsection \<open>Concrete clocks and systems\<close>

text \<open>
  \<open>noon_clock\<close> reads noon and advances one microsecond per reading.
  \<open>known_user_world\<close> is the system after a first \<open>get_state\<close> for user \<open>u1\<close>.
  \<open>stale_clock\<close> reads the origin once and three and a half days later from then on;
  \<open>stale_user_world\<close> holds user \<open>u1\<close>, whose last interaction is the origin.
  \<open>sulking_world\<close> is the system after a new user \<open>u1\<close> has sent an insult.
  \<open>nel_fact\<close> is an insight of type \<open>fact\<close> whose content is \<open>a\<close>, U+0085, \<open>b\<close>.
  \<open>yaml_written\<close> and \<open>yaml_read_back\<close> are \<open>yaml.dump\<close> and \<open>yaml.safe_load\<close> on
  documents whose strings hold no special character but U+0085: the text is
  represented by the document that was dumped, and reading it turns every U+0085 into
  a space. PyYAML writes U+0085, a line break of YAML 1.1, as it is inside a
  single-quoted scalar, and reads a single line break inside such a scalar as a
  space.
\<close>

definition noon_clock :: clock where
  "noon_clock n = 43200000000 + int n"

definition known_user_world :: world where
  "known_user_world = snd (get_state noon_clock ''u1'' init_world)"

definition stale_clock :: clock where
  "stale_clock n = (if n = 0 then 0 else 302400000000 + int n)"

definition stale_user_world :: world where
  "stale_user_world = snd (get_state stale_clock ''u1'' init_world)"

definition sulking_world :: world where
  "sulking_world = snd (update noon_clock ''u1'' ''insult'' None init_world)"

definition nel_to_space :: "ustr \<Rightarrow> ustr" where
  "nel_to_space s = map (\<lambda>c. if c = 133 then 32 else c) s"

definition yaml_written :: "learned_data \<Rightarrow> learned_data" where
  "yaml_written d = d"

definition yaml_read_back :: "learned_data \<Rightarrow> learned_data" where
  "yaml_read_back d k = map_option (map nel_to_space) (d k)"

definition nel_fact :: LearnedInsight where
  "nel_fact =
     \<lparr> id_i = ''0123456789abcdef'', original_knowledge_ids = [''k1''], insight_type = ''fact'',
       content = [97, 133, 98], confidence = 0.8, created_at = 0, verified = False,
       application_count = 0 \<rparr>"

section \<open>Properties\<close>

lemma map_of_None_iff: "map_of xs k = None \<longleftrightarrow> k \<notin> fst ` set xs"
  by (simp add: map_of_eq_None_iff)

subsection \<open>The store, the clock and one update\<close>

lemma datetime_now_fields:
  "states (snd (datetime_now clk w)) = states w"
  "heap (snd (datetime_now clk w)) = heap w"
  "next_ref (snd (datetime_now clk w)) = next_ref w"
  "now_calls (snd (datetime_now clk w)) = Suc (now_calls w)"
  "fst (datetime_now clk w) = clk (now_calls w)"
  by (simp_all add: datetime_now_def)

lemma get_state_known: "states w uid = Some r \<Longrightarrow> get_state clk uid w = (r, w)"
  by (simp add: get_state_def)

lemma get_state_unknown:
  "states w uid = None \<Longrightarrow>
   get_state clk uid w =
     (next_ref w, w\<lparr>now_calls := Suc (now_calls w),
                    states := (states w)(uid \<mapsto> next_ref w),
                    heap := (heap w)(next_ref w := new_AffectionState uid (clk (now_calls w))),
                    next_ref := Suc (next_ref w)\<rparr>)"
  by (simp add: get_state_def datetime_now_def Let_def)

lemma get_state_states: "get_state clk uid w = (r, w1) \<Longrightarrow> states w1 uid = Some r"
  by (cases "states w uid") (auto simp: get_state_known get_state_unknown)

lemma get_state_keeps: "states w v = Some q \<Longrightarrow> states (snd (get_state clk uid w)) v = Some q"
  by (cases "states w uid") (auto simp: get_state_known get_state_unknown)

lemma clamp_change:
  "max 0 (min 100 (x + calculate_change a x c)) = x + calculate_change a x c"
  by (simp add: calculate_change_def Let_def)

lemma update_counters_fields:
  "score (fst (update_counters clk ch s w)) = score s"
  "states (snd (update_counters clk ch s w)) = states w"
  "heap (snd (update_counters clk ch s w)) = heap w"
  by (simp_all add: update_counters_def Let_def datetime_now_def split_def)

lemma update_apply_fields:
  "states (snd (update_apply clk st a c w)) = states w"
  "fst (fst (update_apply clk st a c w)) = score (heap (snd (update_apply clk st a c w)) st)"
  "r \<noteq> st \<Longrightarrow> heap (snd (update_apply clk st a c w)) r = heap w r"
  by (simp_all add: update_apply_def Let_def split_def update_counters_fields datetime_now_fields)

lemma update_apply_score:
  "score (heap (snd (update_apply clk st a c w)) st) =
     max 0 (min 100 (score (heap w st) + calculate_change a (score (heap w st))
        (Some (injected c (heap w st)))))"
  by (simp add: update_apply_def Let_def split_def update_counters_fields datetime_now_fields)

lemma clamp_change0: "calculate_change a x c = 0 \<Longrightarrow> max 0 (min 100 x) = x"
  using clamp_change [of x a c] by simp

lemma update_apply_state:
  assumes "s = heap w st" and "ch = calculate_change a (score s) (Some (injected c s))"
  shows "score (heap (snd (update_apply clk st a c w)) st) = score s + ch"
    and "consecutive_positive (heap (snd (update_apply clk st a c w)) st) =
           (if ch > 0 then consecutive_positive s + 1 else if ch < 0 then 0 else consecutive_positive s)"
    and "consecutive_negative (heap (snd (update_apply clk st a c w)) st) =
           (if ch > 0 then 0 else if ch < 0 then consecutive_negative s + 1 else consecutive_negative s)"
    and "is_ignoring (heap (snd (update_apply clk st a c w)) st) =
           (if ch \<le> -5 \<and> score s + ch < 50 then True else is_ignoring s)"
    and "ignore_until (heap (snd (update_apply clk st a c w)) st) =
           (if ch \<le> -5 \<and> score s + ch < 50
            then Some (clk (Suc (now_calls w)) + timedelta_minutes 30) else ignore_until s)"
    and "now_calls (snd (update_apply clk st a c w)) =
           (if ch \<le> -5 \<and> score s + ch < 50 then Suc (Suc (now_calls w)) else Suc (now_calls w))"
    and "last_interaction (heap (snd (update_apply clk st a c w)) st) = clk (now_calls w)"
  using assms
  by (simp_all add: update_apply_def update_counters_def Let_def split_def datetime_now_def
      clamp_change clamp_change0)

lemma update_sulking:
  assumes "get_state clk uid w = (r, w1)" and "is_ignoring (heap w1 r)"
    and "ignore_until (heap w1 r) = Some t" and "clk (now_calls w1) < t"
  shows "update clk uid a c w =
           ((score (heap w1 r), Still_angry (td_seconds (t - clk (Suc (now_calls w1))) div 60)),
            w1\<lparr>now_calls := Suc (Suc (now_calls w1))\<rparr>)"
  using assms by (simp add: update_def Let_def datetime_now_def)

lemma update_expired:
  assumes "get_state clk uid w = (r, w1)" and "is_ignoring (heap w1 r)"
    and "ignore_until (heap w1 r) = Some t" and "\<not> clk (now_calls w1) < t"
  shows "update clk uid a c w =
           update_apply clk r a (ctx_or_empty c)
             (w1\<lparr>now_calls := Suc (now_calls w1),
                 heap := (heap w1)(r := (heap w1 r)\<lparr>is_ignoring := False, ignore_until := None\<rparr>)\<rparr>)"
  using assms by (simp add: update_def Let_def datetime_now_def)

lemma update_normal:
  assumes "get_state clk uid w = (r, w1)"
    and "\<not> is_ignoring (heap w1 r) \<or> ignore_until (heap w1 r) = None"
  shows "update clk uid a c w = update_apply clk r a (ctx_or_empty c) w1"
  using assms by (auto simp add: update_def Let_def)

lemma update_cases [consumes 1, case_names sulking expired normal]:
  assumes "get_state clk uid w = (r, w1)"
  obtains t where "is_ignoring (heap w1 r)" "ignore_until (heap w1 r) = Some t"
      "clk (now_calls w1) < t"
  | t where "is_ignoring (heap w1 r)" "ignore_until (heap w1 r) = Some t"
      "\<not> clk (now_calls w1) < t"
  | "\<not> is_ignoring (heap w1 r) \<or> ignore_until (heap w1 r) = None"
  by (cases "ignore_until (heap w1 r)") auto

lemma update_frame:
  assumes "get_state clk uid w = (r, w1)"
  shows "states (snd (update clk uid a c w)) = states w1"
    and "q \<noteq> r \<Longrightarrow> heap (snd (update clk uid a c w)) q = heap w1 q"
    and "fst (fst (update clk uid a c w)) = score (heap (snd (update clk uid a c w)) r)"
  using assms
  by (cases rule: update_cases;
      simp add: update_sulking update_expired update_normal update_apply_fields)+

lemma user_inv_get_state:
  assumes "\<And>t. P (new_AffectionState uid t)" and "user_inv P w v"
  shows "user_inv P (snd (get_state clk uid w)) v"
  using assms
  by (cases "states w uid")
     (auto simp: get_state_known get_state_unknown user_inv_def split: option.splits)

lemma user_inv_update:
  assumes new: "\<And>t. P (new_AffectionState uid t)"
    and step: "\<And>r w1. get_state clk uid w = (r, w1) \<Longrightarrow> P (heap w1 r)
                 \<Longrightarrow> P (heap (snd (update clk uid a c w)) r)"
    and inv: "user_inv P w v"
  shows "user_inv P (snd (update clk uid a c w)) v"
proof -
  obtain r w1 where gs: "get_state clk uid w = (r, w1)"
    by (cases "get_state clk uid w") auto
  have inv1: "user_inv P w1 v"
    using user_inv_get_state [OF new inv, of clk] gs by simp
  show ?thesis
  proof (cases "states w1 v")
    case None
    then show ?thesis by (simp add: user_inv_def update_frame(1) [OF gs])
  next
    case (Some q)
    show ?thesis
    proof (cases "q = r")
      case True
      with Some inv1 have "P (heap w1 r)" by (simp add: user_inv_def)
      then have "P (heap (snd (update clk uid a c w)) r)" by (rule step [OF gs])
      with Some True show ?thesis by (simp add: user_inv_def update_frame(1) [OF gs])
    next
      case False
      with Some inv1 show ?thesis
        by (simp add: user_inv_def update_frame(1) [OF gs] update_frame(2) [OF gs])
    qed
  qed
qed

lemma update_score_step:
  assumes "get_state clk uid w = (r, w1)"
    and "0 \<le> score (heap w1 r) \<and> score (heap w1 r) \<le> 100"
  shows "0 \<le> score (heap (snd (update clk uid a c w)) r)
       \<and> score (heap (snd (update clk uid a c w)) r) \<le> 100"
  using assms(1)
proof (cases rule: update_cases)
  case (sulking t)
  with assms show ?thesis by (simp add: update_sulking)
next
  case (expired t)
  with assms show ?thesis by (simp add: update_expired update_apply_score)
next
  case normal
  with assms show ?thesis by (simp add: update_normal update_apply_score)
qed

lemma user_inv_init: "user_inv P init_world v"
  by (simp add: user_inv_def init_world_def)

lemma user_inv_run:
  assumes new: "\<And>u t. P (new_AffectionState u t)"
    and step: "\<And>uid a c w r w1. get_state clk uid w = (r, w1) \<Longrightarrow> P (heap w1 r)
                 \<Longrightarrow> P (heap (snd (update clk uid a c w)) r)"
    and inv: "user_inv P w v"
  shows "user_inv P (run_updates clk calls w) v"
  using inv
proof (induction calls arbitrary: w)
  case Nil
  then show ?case by simp
next
  case (Cons call calls)
  obtain uid a c where call: "call = (uid, a, c)" by (cases call) auto
  have "user_inv P (snd (update clk uid a c w)) v"
    by (rule user_inv_update [OF new step Cons.prems])
  then show ?case using Cons.IH call by simp
qed

lemma get_state_now_calls: "now_calls w \<le> now_calls (snd (get_state clk uid w))"
  by (cases "states w uid") (auto simp: get_state_known get_state_unknown)

lemma new_state_score: "0 \<le> score (new_AffectionState uid t) \<and> score (new_AffectionState uid t) \<le> 100"
  by (simp add: new_AffectionState_def)

lemma update_own_score:
  assumes inv: "score_in_range w uid"
  shows "user_score (snd (update clk uid a c w)) uid = Some (fst (fst (update clk uid a c w)))
       \<and> 0 \<le> fst (fst (update clk uid a c w)) \<and> fst (fst (update clk uid a c w)) \<le> 100"
proof -
  obtain r w1 where gs: "get_state clk uid w = (r, w1)"
    by (cases "get_state clk uid w") auto
  have "score_in_range w1 uid"
    using user_inv_get_state [of "\<lambda>s. 0 \<le> score s \<and> score s \<le> 100" uid w uid clk] inv gs
    by (simp add: score_in_range_def new_state_score)
  then have "0 \<le> score (heap w1 r) \<and> score (heap w1 r) \<le> 100"
    using get_state_states [OF gs] by (simp add: score_in_range_def user_inv_def)
  then have "0 \<le> score (heap (snd (update clk uid a c w)) r)
       \<and> score (heap (snd (update clk uid a c w)) r) \<le> 100"
    by (rule update_score_step [OF gs])
  then show ?thesis
    using get_state_states [OF gs]
    by (simp add: user_score_def update_frame(1) [OF gs] update_frame(3) [OF gs])
qed

lemmas update_apply_simps = update_apply_state [OF refl refl]

lemma update_counters_step:
  assumes gs: "get_state clk uid w = (r, w1)"
  shows "consecutive_positive (heap (snd (update clk uid a c w)) r) =
           (if fst (fst (update clk uid a c w)) > score (heap w1 r)
              then consecutive_positive (heap w1 r) + 1
            else if fst (fst (update clk uid a c w)) < score (heap w1 r) then 0
            else consecutive_positive (heap w1 r))"
    and "consecutive_negative (heap (snd (update clk uid a c w)) r) =
           (if fst (fst (update clk uid a c w)) > score (heap w1 r) then 0
            else if fst (fst (update clk uid a c w)) < score (heap w1 r)
              then consecutive_negative (heap w1 r) + 1
            else consecutive_negative (heap w1 r))"
  using gs
  by (cases rule: update_cases;
      simp add: update_sulking update_expired update_normal update_apply_fields(2)
        update_apply_simps injected_def)+

lemma update_exclusive_step:
  assumes gs: "get_state clk uid w = (r, w1)"
    and "consecutive_positive (heap w1 r) = 0 \<or> consecutive_negative (heap w1 r) = 0"
  shows "consecutive_positive (heap (snd (update clk uid a c w)) r) = 0
       \<or> consecutive_negative (heap (snd (update clk uid a c w)) r) = 0"
  using assms(2) by (auto simp: update_counters_step [OF gs])

lemma new_state_counters:
  "consecutive_positive (new_AffectionState uid t) = 0
   \<or> consecutive_negative (new_AffectionState uid t) = 0"
  by (simp add: new_AffectionState_def)

lemma update_apply_sulk_trigger:
  assumes delta: "fst (fst (update_apply clk st a c w)) - score (heap w st) \<le> -5"
    and low: "fst (fst (update_apply clk st a c w)) < 50 \<or> score (heap w st) < 50"
  shows "is_ignoring (heap (snd (update_apply clk st a c w)) st)"
    and "ignore_until (heap (snd (update_apply clk st a c w)) st)
           = Some (clk (Suc (now_calls w)) + timedelta_minutes 30)"
    and "now_calls (snd (update_apply clk st a c w)) = Suc (Suc (now_calls w))"
proof -
  define ch where "ch = calculate_change a (score (heap w st)) (Some (injected c (heap w st)))"
  have sc: "fst (fst (update_apply clk st a c w)) = score (heap w st) + ch"
    by (simp only: update_apply_fields(2) update_apply_state(1) [OF refl ch_def])
  from delta low have trig: "ch \<le> -5 \<and> score (heap w st) + ch < 50"
    unfolding sc by linarith
  show "is_ignoring (heap (snd (update_apply clk st a c w)) st)"
    using trig by (simp add: update_apply_state(4) [OF refl ch_def])
  show "ignore_until (heap (snd (update_apply clk st a c w)) st)
           = Some (clk (Suc (now_calls w)) + timedelta_minutes 30)"
    using trig by (simp add: update_apply_state(5) [OF refl ch_def])
  show "now_calls (snd (update_apply clk st a c w)) = Suc (Suc (now_calls w))"
    using trig by (simp add: update_apply_state(6) [OF refl ch_def])
qed

lemma update_sulk_trigger:
  assumes gs: "get_state clk uid w = (r, w1)"
    and delta: "fst (fst (update clk uid a c w)) - score (heap w1 r) \<le> -5"
    and low: "fst (fst (update clk uid a c w)) < 50 \<or> score (heap w1 r) < 50"
  shows "is_ignoring (heap (snd (update clk uid a c w)) r)
       \<and> ignore_until (heap (snd (update clk uid a c w)) r)
           = Some (clk (now_calls (snd (update clk uid a c w)) - 1) + timedelta_minutes 30)
       \<and> now_calls w1 < now_calls (snd (update clk uid a c w))"
  using gs
proof (cases rule: update_cases)
  case (sulking t)
  have "fst (fst (update clk uid a c w)) = score (heap w1 r)"
    by (simp add: update_sulking [OF gs sulking])
  with delta show ?thesis by simp
next
  case (expired t)
  define wb where "wb = w1\<lparr>now_calls := Suc (now_calls w1),
     heap := (heap w1)(r := (heap w1 r)\<lparr>is_ignoring := False, ignore_until := None\<rparr>)\<rparr>"
  have up: "update clk uid a c w = update_apply clk r a (ctx_or_empty c) wb"
    unfolding wb_def by (rule update_expired [OF gs expired])
  have sb: "score (heap wb r) = score (heap w1 r)" and nb: "now_calls wb = Suc (now_calls w1)"
    by (simp_all add: wb_def)
  from delta low have d: "fst (fst (update_apply clk r a (ctx_or_empty c) wb)) - score (heap wb r) \<le> -5"
    and l: "fst (fst (update_apply clk r a (ctx_or_empty c) wb)) < 50 \<or> score (heap wb r) < 50"
    by (simp_all only: up sb)
  show ?thesis
    using update_apply_sulk_trigger [OF d l] by (simp add: up nb)
next
  case normal
  have up: "update clk uid a c w = update_apply clk r a (ctx_or_empty c) w1"
    by (rule update_normal [OF gs normal])
  from delta low have d: "fst (fst (update_apply clk r a (ctx_or_empty c) w1)) - score (heap w1 r) \<le> -5"
    and l: "fst (fst (update_apply clk r a (ctx_or_empty c) w1)) < 50 \<or> score (heap w1 r) < 50"
    by (simp_all only: up)
  show ?thesis
    using update_apply_sulk_trigger [OF d l] by (simp add: up)
qed

lemma update_while_sulking:
  assumes gs: "get_state clk uid w = (r, w1)"
    and "is_ignoring (heap w1 r)" and "ignore_until (heap w1 r) = Some t"
    and "clk (now_calls w1) < t"
  shows "fst (fst (update clk uid a c w)) = score (heap w1 r)"
    and "heap (snd (update clk uid a c w)) = heap w1"
    and "states (snd (update clk uid a c w)) = states w1"
    and "snd (fst (update clk uid a c w))
           = Still_angry (td_seconds (t - clk (Suc (now_calls w1))) div 60)"
  using assms by (simp_all add: update_sulking)

lemma update_sulk_step:
  assumes gs: "get_state clk uid w = (r, w1)"
    and "is_ignoring (heap w1 r) \<longleftrightarrow> ignore_until (heap w1 r) \<noteq> None"
  shows "is_ignoring (heap (snd (update clk uid a c w)) r)
           \<longleftrightarrow> ignore_until (heap (snd (update clk uid a c w)) r) \<noteq> None"
  using gs assms(2)
  by (cases rule: update_cases;
      simp add: update_sulking update_expired update_normal update_apply_simps)+

lemma new_state_sulk:
  "is_ignoring (new_AffectionState uid t) \<longleftrightarrow> ignore_until (new_AffectionState uid t) \<noteq> None"
  by (simp add: new_AffectionState_def)

lemma get_state_fresh_fields:
  assumes "states w uid = None" and "get_state clk uid w = (r, w1)"
  shows "states w1 uid = Some r" and "heap w1 r = new_AffectionState uid (clk (now_calls w))"
    and "get_state clk2 uid w1 = (r, w1)"
  using assms by (auto simp: get_state_unknown get_state_known)

lemma update_keeps_user:
  assumes "states w v = Some q"
  shows "states (snd (update clk uid a c w)) v = Some q"
proof -
  obtain r w1 where gs: "get_state clk uid w = (r, w1)"
    by (cases "get_state clk uid w") auto
  have "states w1 v = Some q"
    using get_state_keeps [OF assms, of clk uid] gs by simp
  then show ?thesis by (simp add: update_frame(1) [OF gs])
qed

lemma run_updates_keeps_user:
  "states w v = Some q \<Longrightarrow> states (run_updates clk calls w) v = Some q"
proof (induction calls arbitrary: w)
  case Nil
  then show ?case by simp
next
  case (Cons call calls)
  obtain uid a c where call: "call = (uid, a, c)" by (cases call) auto
  have "states (snd (update clk uid a c w)) v = Some q"
    by (rule update_keeps_user [OF Cons.prems])
  then show ?case using Cons.IH call by simp
qed

lemma get_level_20: "get_level 20 = ACQUAINTANCE"
  by (simp add: get_level_def)

lemma update_states_known:
  "states w uid = Some r \<Longrightarrow> states (snd (update clk uid a c w)) = states w"
  using update_frame(1) [OF get_state_known] by simp

lemma apply_actions_states:
  "states w uid = Some r \<Longrightarrow> states (apply_actions clk uid acts w) = states w"
  by (induction acts arbitrary: w) (simp_all add: update_states_known)

lemma apply_decay_states:
  "states w uid = Some r \<Longrightarrow> states (apply_decay clk uid w) = states w"
  by (simp add: apply_decay_def get_state_known Let_def split_def datetime_now_fields
      update_states_known)

lemma process_message_score:
  assumes "get_state clk uid w = (st, w1)"
  shows "states (snd (process_message lower clk uid message rt w)) = states w1"
    and "fst (fst (process_message lower clk uid message rt w))
           = score (heap (snd (process_message lower clk uid message rt w)) st)"
proof -
  have known: "states w1 uid = Some st" by (rule get_state_states [OF assms])
  define w2 where "w2 = snd (datetime_now clk w1)"
  have k2: "states w2 uid = Some st" and s2: "states w2 = states w1"
    using known by (simp_all add: w2_def datetime_now_fields)
  define acts where "acts = triggered_actions lower message (dt_hour (fst (datetime_now clk w1))) rt"
  define w3 where "w3 = apply_actions clk uid acts w2"
  have s3: "states w3 = states w1"
    using apply_actions_states [OF k2] s2 by (simp add: w3_def)
  define w4 where "w4 = (if acts = [] then snd (update clk uid ''base_message'' None w3) else w3)"
  have s4: "states w4 = states w1"
    using update_states_known [of w3 uid st] known s3 by (simp add: w4_def)
  have s5: "states (apply_decay clk uid w4) = states w1"
    using apply_decay_states [of w4 uid st] known s4 by simp
  have pm: "process_message lower clk uid message rt w =
          ((score (heap (apply_decay clk uid w4) st), generate_interaction_feedback acts, acts),
           apply_decay clk uid w4)"
    by (simp add: process_message_def assms Let_def split_def w4_def w3_def acts_def w2_def)
  show "states (snd (process_message lower clk uid message rt w)) = states w1"
    by (simp add: pm s5)
  show "fst (fst (process_message lower clk uid message rt w))
           = score (heap (snd (process_message lower clk uid message rt w)) st)"
    by (simp add: pm)
qed

lemma love_result:
  "fst (process_message ascii_lower noon_clock ''u1'' (u ''love'') None known_user_world)
     = (22, [Glad_to_hear], [''compliment''])"
  by code_simp

lemma starts_with_iff: "starts_with m w \<longleftrightarrow> (\<exists>s. m = w @ s)"
  by (induction m w rule: starts_with.induct) auto

lemma py_in_iff: "py_in w m \<longleftrightarrow> (\<exists>p s. m = p @ w @ s)"
proof (induction m)
  case Nil
  then show ?case by auto
next
  case (Cons c cs)
  show ?case
  proof
    assume "py_in w (c # cs)"
    then consider "starts_with (c # cs) w" | "py_in w cs" by auto
    then show "\<exists>p s. c # cs = p @ w @ s"
    proof cases
      case 1
      then obtain s where "c # cs = w @ s" by (auto simp: starts_with_iff)
      then have "c # cs = [] @ w @ s" by simp
      then show ?thesis by blast
    next
      case 2
      then obtain p s where "cs = p @ w @ s" using Cons.IH by auto
      then have "c # cs = (c # p) @ w @ s" by simp
      then show ?thesis by blast
    qed
  next
    assume "\<exists>p s. c # cs = p @ w @ s"
    then obtain p s where ps: "c # cs = p @ w @ s" by auto
    show "py_in w (c # cs)"
    proof (cases p)
      case Nil
      with ps have "starts_with (c # cs) w" by (auto simp: starts_with_iff)
      then show ?thesis by simp
    next
      case (Cons a p')
      with ps have "cs = p' @ w @ s" by simp
      then have "py_in w cs" using Cons.IH by auto
      then show ?thesis by simp
    qed
  qed
qed

lemma count_in_pos: "count_in ws m > 0 \<longleftrightarrow> (\<exists>k \<in> set ws. py_in k m)"
  by (auto simp: count_in_def filter_empty_conv)

lemma other_girl_hit:
  "(\<exists>k \<in> set other_girl_words. \<exists>p s. m = p @ k @ s) \<longleftrightarrow> count_in other_girl_words m > 0"
  by (simp add: count_in_pos py_in_iff)



subsection \<open>The short-term buffer\<close>

lemma slice_from_neg: "0 < k \<Longrightarrow> slice_from (- k) xs = last_n (nat k) xs"
  by (auto simp: slice_from_def last_n_def Let_def max_def nat_diff_distrib)

lemma slice_from_zero: "slice_from 0 xs = xs"
  by (simp add: slice_from_def)

lemma add_turn_buffer:
  assumes "1 \<le> max_turns mem"
  shows "buffer (add_turn h t1 t2 uid um br emo tops mem) uid
           = last_n (nat (max_turns mem)) (buffer mem uid @ [new_turn h t1 t2 uid um br emo tops])"
    and "max_turns (add_turn h t1 t2 uid um br emo tops mem) = max_turns mem"
  using assms
  by (auto simp: add_turn_def buffer_def Let_def slice_from_neg last_n_def split: option.splits)

lemma last_n_append: "last_n n (last_n n ys @ zs) = last_n n (ys @ zs)"
proof (cases "length ys \<le> n")
  case True
  then show ?thesis by (simp add: last_n_def)
next
  case False
  then have "length zs + (length ys - n) = length ys + length zs - n"
    and "min (length ys) n = n" by arith+
  with False show ?thesis by (simp add: last_n_def)
qed

lemma last_n_Suc: "length xs = Suc n \<Longrightarrow> last_n n xs = tl xs"
  by (cases xs) (simp_all add: last_n_def)

lemma add_turns_buffer:
  assumes "1 \<le> max_turns mem" and "length (buffer mem uid) \<le> nat (max_turns mem)"
  shows "buffer (add_turns h uid qs mem) uid
           = last_n (nat (max_turns mem)) (buffer mem uid @ map (turn_of h uid) qs)
         \<and> max_turns (add_turns h uid qs mem) = max_turns mem"
  using assms
proof (induction qs arbitrary: mem)
  case Nil
  then show ?case by (simp add: last_n_def)
next
  case (Cons q qs)
  obtain t1 t2 um br where q: "q = (t1, t2, um, br)" by (cases q) auto
  define mem1 where "mem1 = add_turn h t1 t2 uid um br None None mem"
  have m1: "max_turns mem1 = max_turns mem"
    and b1: "buffer mem1 uid
       = last_n (nat (max_turns mem)) (buffer mem uid @ [turn_of h uid q])"
    using add_turn_buffer [OF Cons.prems(1), of h t1 t2 uid um br None None]
    by (simp_all add: mem1_def q turn_of_def)
  have "1 \<le> max_turns mem1" using Cons.prems m1 by simp
  moreover have "length (buffer mem1 uid) \<le> nat (max_turns mem1)"
    by (simp add: b1 m1 last_n_def)
  ultimately have "buffer (add_turns h uid qs mem1) uid
           = last_n (nat (max_turns mem1)) (buffer mem1 uid @ map (turn_of h uid) qs)
         \<and> max_turns (add_turns h uid qs mem1) = max_turns mem1"
    by (rule Cons.IH)
  then show ?case
    using last_n_append [of "nat (max_turns mem)" "buffer mem uid @ [turn_of h uid q]"
        "map (turn_of h uid) qs"]
    by (simp add: q m1 b1 mem1_def [symmetric])
qed

lemma add_turns_from_empty:
  assumes "1 \<le> n"
  shows "buffer (add_turns h uid qs (ShortTermMemory_init n)) uid
           = last_n (nat n) (map (turn_of h uid) qs)"
  using add_turns_buffer [of "ShortTermMemory_init n" uid h qs] assms
  by (simp add: ShortTermMemory_init_def buffer_def)

lemma get_recent_context_last:
  assumes "1 \<le> k"
  shows "get_recent_context mem uid k = last_n (nat k) (buffer mem uid)"
  using assms
  by (auto simp: get_recent_context_def buffer_def Let_def slice_from_neg last_n_def
      split: option.splits)

subsection \<open>Merging insights\<close>

lemma set_merge_bucket: "set (merge_bucket l is) = set l \<union> content ` set is"
  by (induction "is" arbitrary: l) auto

lemma merge_bucket_absorb: "content ` set is \<subseteq> set l \<Longrightarrow> merge_bucket l is = l"
  by (induction "is" arbitrary: l) auto

lemma merge_bucket_idem: "merge_bucket (merge_bucket l is) is = merge_bucket l is"
  by (rule merge_bucket_absorb) (simp add: set_merge_bucket)

lemma distinct_merge_bucket: "distinct l \<Longrightarrow> distinct (merge_bucket l is)"
  by (induction "is" arbitrary: l) auto

lemma integrate_type_eq:
  "integrate_type ty key grouped d = d(key := bucket_after (grouped ty) (d key))"
  by (cases "grouped ty") (simp_all add: integrate_type_def bucket_after_def)

lemma bucket_after_idem: "bucket_after g (bucket_after g old) = bucket_after g old"
  by (cases g) (simp_all add: bucket_after_def merge_bucket_idem)

lemma integrate_data_apply:
  "integrate_data insights d ''user_preferences''
     = bucket_after (group_by_type insights ''preference'') (d ''user_preferences'')"
  "integrate_data insights d ''user_facts''
     = bucket_after (group_by_type insights ''fact'') (d ''user_facts'')"
  "integrate_data insights d ''user_patterns''
     = bucket_after (group_by_type insights ''pattern'') (d ''user_patterns'')"
  "integrate_data insights d ''emotional_rules''
     = bucket_after (group_by_type insights ''emotion_rule'') (d ''emotional_rules'')"
  by (simp_all add: integrate_data_def Let_def integrate_type_eq)

lemma integrate_data_other:
  "k \<notin> snd ` set type_lists \<Longrightarrow> integrate_data insights d k = d k"
  by (simp add: integrate_data_def Let_def integrate_type_eq type_lists_def)

lemma key_cases:
  obtains "k = ''user_preferences''" | "k = ''user_facts''" | "k = ''user_patterns''"
    | "k = ''emotional_rules''" | "k \<notin> snd ` set type_lists"
  by (auto simp: type_lists_def)

lemma integrate_data_idem:
  "integrate_data insights (integrate_data insights d) = integrate_data insights d"
proof
  fix k
  show "integrate_data insights (integrate_data insights d) k = integrate_data insights d k"
    by (cases k rule: key_cases)
       (simp_all add: integrate_data_apply integrate_data_other bucket_after_idem)
qed

lemma group_by_type_single:
  "group_by_type [i] ty = (if ty = insight_type i then Some [i] else None)"
  by (simp add: group_by_type_def)

lemma bucket_after_single:
  "bucket_after (group_by_type [i] ty) old =
     (if ty = insight_type i
      then Some (merge_bucket (case old of None \<Rightarrow> [] | Some l \<Rightarrow> l) [i]) else old)"
  by (simp add: group_by_type_single bucket_after_def)

lemma integrate_type_other:
  "ty \<noteq> insight_type i \<Longrightarrow> integrate_type ty key (group_by_type [i]) d = d"
  by (simp add: integrate_type_def group_by_type_single)

lemma integrate_type_present:
  "d key = Some l \<Longrightarrow> content i \<in> set l \<Longrightarrow>
   integrate_type (insight_type i) key (group_by_type [i]) d = d"
  by (simp add: integrate_type_def group_by_type_single fun_upd_idem)

lemma type_lists_cases:
  assumes "(ty, key) \<in> set type_lists"
  obtains "ty = ''preference''" "key = ''user_preferences''"
    | "ty = ''fact''" "key = ''user_facts''"
    | "ty = ''pattern''" "key = ''user_patterns''"
    | "ty = ''emotion_rule''" "key = ''emotional_rules''"
proof -
  from assms have "ty = ''preference'' \<and> key = ''user_preferences''
    \<or> ty = ''fact'' \<and> key = ''user_facts''
    \<or> ty = ''pattern'' \<and> key = ''user_patterns''
    \<or> ty = ''emotion_rule'' \<and> key = ''emotional_rules''"
    by (simp add: type_lists_def)
  then show ?thesis
  proof (elim disjE conjE)
    assume "ty = ''preference''" "key = ''user_preferences''"
    then show ?thesis by (rule that(1))
  next
    assume "ty = ''fact''" "key = ''user_facts''"
    then show ?thesis by (rule that(2))
  next
    assume "ty = ''pattern''" "key = ''user_patterns''"
    then show ?thesis by (rule that(3))
  next
    assume "ty = ''emotion_rule''" "key = ''emotional_rules''"
    then show ?thesis by (rule that(4))
  qed
qed

lemma integrate_data_present:
  assumes d: "d key = Some l" and c: "content i \<in> set l"
    and t: "(insight_type i, key) \<in> set type_lists"
  shows "integrate_data [i] d = d"
  using t
proof (cases rule: type_lists_cases)
  case 1
  have "integrate_type ''preference'' ''user_preferences'' (group_by_type [i]) d = d"
    using integrate_type_present [of d key l i] d c 1 by simp
  moreover have "''fact'' \<noteq> insight_type i" "''pattern'' \<noteq> insight_type i"
    "''emotion_rule'' \<noteq> insight_type i" using 1 by simp_all
  ultimately show ?thesis
    by (simp add: integrate_data_def Let_def integrate_type_other)
next
  case 2
  have "integrate_type ''fact'' ''user_facts'' (group_by_type [i]) d = d"
    using integrate_type_present [of d key l i] d c 2 by simp
  moreover have "''preference'' \<noteq> insight_type i" "''pattern'' \<noteq> insight_type i"
    "''emotion_rule'' \<noteq> insight_type i" using 2 by simp_all
  ultimately show ?thesis
    by (simp add: integrate_data_def Let_def integrate_type_other)
next
  case 3
  have "integrate_type ''pattern'' ''user_patterns'' (group_by_type [i]) d = d"
    using integrate_type_present [of d key l i] d c 3 by simp
  moreover have "''preference'' \<noteq> insight_type i" "''fact'' \<noteq> insight_type i"
    "''emotion_rule'' \<noteq> insight_type i" using 3 by simp_all
  ultimately show ?thesis
    by (simp add: integrate_data_def Let_def integrate_type_other)
next
  case 4
  have "integrate_type ''emotion_rule'' ''emotional_rules'' (group_by_type [i]) d = d"
    using integrate_type_present [of d key l i] d c 4 by simp
  moreover have "''preference'' \<noteq> insight_type i" "''fact'' \<noteq> insight_type i"
    "''pattern'' \<noteq> insight_type i" using 4 by simp_all
  ultimately show ?thesis
    by (simp add: integrate_data_def Let_def integrate_type_other)
qed

lemma bucket_after_distinct:
  assumes "\<And>l. old = Some l \<Longrightarrow> distinct l" and "bucket_after g old = Some l"
  shows "distinct l"
  using assms
  by (cases g; cases old) (auto simp: bucket_after_def distinct_merge_bucket)

lemma integrate_data_distinct:
  assumes inv: "\<And>k l. d k = Some l \<Longrightarrow> distinct l"
    and res: "integrate_data insights d k = Some l"
  shows "distinct l"
proof (cases k rule: key_cases)
  case 1
  with res show ?thesis
    by (auto simp: integrate_data_apply intro: bucket_after_distinct [OF inv])
next
  case 2
  with res show ?thesis
    by (auto simp: integrate_data_apply intro: bucket_after_distinct [OF inv])
next
  case 3
  with res show ?thesis
    by (auto simp: integrate_data_apply intro: bucket_after_distinct [OF inv])
next
  case 4
  with res show ?thesis
    by (auto simp: integrate_data_apply intro: bucket_after_distinct [OF inv])
next
  case 5
  with res show ?thesis
    by (auto simp: integrate_data_other intro: inv)
qed

lemma merge_bucket_absent:
  "content i \<notin> set l \<Longrightarrow> merge_bucket l [i] = l @ [content i]"
  by simp

lemma merge_bucket_appends:
  "\<exists>ys. merge_bucket l is = l @ ys \<and> distinct ys \<and> set ys = content ` set is - set l"
proof (induction "is" arbitrary: l)
  case Nil
  then show ?case by simp
next
  case (Cons i "is")
  show ?case
  proof (cases "content i \<in> set l")
    case True
    obtain ys where "merge_bucket l is = l @ ys" "distinct ys"
      "set ys = content ` set is - set l"
      using Cons.IH [of l] by auto
    with True show ?thesis by auto
  next
    case False
    obtain ys where ys: "merge_bucket (l @ [content i]) is = (l @ [content i]) @ ys"
      "distinct ys" "set ys = content ` set is - set (l @ [content i])"
      using Cons.IH [of "l @ [content i]"] by auto
    have "merge_bucket l (i # is) = l @ (content i # ys)"
      using False ys(1) by simp
    moreover have "distinct (content i # ys)" using ys(2,3) by auto
    moreover have "set (content i # ys) = content ` set (i # is) - set l"
      using False ys(3) by auto
    ultimately show ?thesis by blast
  qed
qed

lemma integrate_data_absent:
  assumes t: "(insight_type i, key) \<in> set type_lists"
    and a: "content i \<notin> set (case d key of None \<Rightarrow> [] | Some l \<Rightarrow> l)"
  shows "integrate_data [i] d
           = d(key \<mapsto> (case d key of None \<Rightarrow> [] | Some l \<Rightarrow> l) @ [content i])"
  using t
proof (cases rule: type_lists_cases)
  case 1
  have "integrate_type ''preference'' ''user_preferences'' (group_by_type [i]) d
          = d(key \<mapsto> (case d key of None \<Rightarrow> [] | Some l \<Rightarrow> l) @ [content i])"
    using a 1 by (simp add: integrate_type_def group_by_type_single)
  moreover have "''fact'' \<noteq> insight_type i" "''pattern'' \<noteq> insight_type i"
    "''emotion_rule'' \<noteq> insight_type i" using 1 by simp_all
  ultimately show ?thesis
    by (simp add: integrate_data_def Let_def integrate_type_other)
next
  case 2
  have "integrate_type ''fact'' ''user_facts'' (group_by_type [i]) d
          = d(key \<mapsto> (case d key of None \<Rightarrow> [] | Some l \<Rightarrow> l) @ [content i])"
    using a 2 by (simp add: integrate_type_def group_by_type_single)
  moreover have "''preference'' \<noteq> insight_type i" "''pattern'' \<noteq> insight_type i"
    "''emotion_rule'' \<noteq> insight_type i" using 2 by simp_all
  ultimately show ?thesis
    by (simp add: integrate_data_def Let_def integrate_type_other)
next
  case 3
  have "integrate_type ''pattern'' ''user_patterns'' (group_by_type [i]) d
          = d(key \<mapsto> (case d key of None \<Rightarrow> [] | Some l \<Rightarrow> l) @ [content i])"
    using a 3 by (simp add: integrate_type_def group_by_type_single)
  moreover have "''preference'' \<noteq> insight_type i" "''fact'' \<noteq> insight_type i"
    "''emotion_rule'' \<noteq> insight_type i" using 3 by simp_all
  ultimately show ?thesis
    by (simp add: integrate_data_def Let_def integrate_type_other)
next
  case 4
  have "integrate_type ''emotion_rule'' ''emotional_rules'' (group_by_type [i]) d
          = d(key \<mapsto> (case d key of None \<Rightarrow> [] | Some l \<Rightarrow> l) @ [content i])"
    using a 4 by (simp add: integrate_type_def group_by_type_single)
  moreover have "''preference'' \<noteq> insight_type i" "''fact'' \<noteq> insight_type i"
    "''pattern'' \<noteq> insight_type i" using 4 by simp_all
  ultimately show ?thesis
    by (simp add: integrate_data_def Let_def integrate_type_other)
qed

lemma integrate_insights_present:
  assumes "load_learned_knowledge yaml_safe_load yaml_file key = Some l"
    and "content i \<in> set l" and "(insight_type i, key) \<in> set type_lists"
  shows "integrate_insights yaml_dump yaml_safe_load [i] yaml_file
           = Some (yaml_dump (load_learned_knowledge yaml_safe_load yaml_file))"
  using assms
    integrate_data_present [of "load_learned_knowledge yaml_safe_load yaml_file" key l i]
  by (simp add: integrate_insights_def save_learned_knowledge_def Let_def)

lemma integrate_insights_again:
  assumes "yaml_safe_load (yaml_dump (integrate_data insights
             (load_learned_knowledge yaml_safe_load yaml_file)))
           = integrate_data insights (load_learned_knowledge yaml_safe_load yaml_file)"
  shows "integrate_insights yaml_dump yaml_safe_load insights
           (integrate_insights yaml_dump yaml_safe_load insights yaml_file)
         = integrate_insights yaml_dump yaml_safe_load insights yaml_file"
  using assms
  by (simp add: integrate_insights_def save_learned_knowledge_def load_learned_knowledge_def
      Let_def integrate_data_idem)

subsection \<open>The claims\<close>

text \<open>
  C1. The stored score stays in \<open>[0,100]\<close>. For every user \<open>v\<close>: after any run of
  \<open>update\<close> calls on the initial system the record of \<open>v\<close> has its score in
  \<open>[0,100]\<close>; one \<open>update\<close> call, for any user id, action and context (decay and
  the actions of special events are such actions), keeps the score of \<open>v\<close> in range;
  and the score the call returns is the stored score of the user it was made for, in
  \<open>[0,100]\<close>.
\<close>

theorem update_score_in_range:
  "score_in_range (run_updates clk calls init_world) v
   \<and> (score_in_range w v \<longrightarrow> score_in_range (snd (update clk uid action c w)) v)
   \<and> (score_in_range w uid \<longrightarrow>
        user_score (snd (update clk uid action c w)) uid
          = Some (fst (fst (update clk uid action c w)))
        \<and> 0 \<le> fst (fst (update clk uid action c w))
        \<and> fst (fst (update clk uid action c w)) \<le> 100)"
proof (intro conjI impI)
  show "score_in_range (run_updates clk calls init_world) v"
    unfolding score_in_range_def
    by (rule user_inv_run [OF new_state_score update_score_step user_inv_init])
next
  assume inv: "score_in_range w v"
  show "score_in_range (snd (update clk uid action c w)) v"
    unfolding score_in_range_def
  proof (rule user_inv_update)
    show "0 \<le> score (new_AffectionState uid t) \<and> score (new_AffectionState uid t) \<le> 100" for t
      by (rule new_state_score)
    show "0 \<le> score (heap (snd (update clk uid action c w)) r)
            \<and> score (heap (snd (update clk uid action c w)) r) \<le> 100"
      if "get_state clk uid w = (r, w1)" "0 \<le> score (heap w1 r) \<and> score (heap w1 r) \<le> 100"
      for r w1
      using that by (rule update_score_step)
    show "user_inv (\<lambda>s. 0 \<le> score s \<and> score s \<le> 100) w v"
      using inv by (simp add: score_in_range_def)
  qed
next
  assume "score_in_range w uid"
  then show "user_score (snd (update clk uid action c w)) uid
               = Some (fst (fst (update clk uid action c w)))"
    by (simp add: update_own_score)
next
  assume "score_in_range w uid"
  then show "0 \<le> fst (fst (update clk uid action c w))"
    by (simp add: update_own_score)
next
  assume "score_in_range w uid"
  then show "fst (fst (update clk uid action c w)) \<le> 100"
    by (simp add: update_own_score)
qed

text \<open>The hypothesis of C1 holds on the initial system, for an insult by a new user.\<close>

theorem update_score_in_range_witness:
  "score_in_range init_world ''u1''
   \<and> score_in_range (snd (update noon_clock ''u1'' ''insult'' None init_world)) ''u1''
   \<and> 0 \<le> fst (fst (update noon_clock ''u1'' ''insult'' None init_world))
   \<and> fst (fst (update noon_clock ''u1'' ''insult'' None init_world)) \<le> 100"
  using update_score_in_range [of noon_clock "[]" "''u1''" init_world "''u1''" "''insult''" None]
  by (simp add: score_in_range_def user_inv_def init_world_def)

text \<open>
  C2. For every action, every current score and every context, \<open>calculate_change\<close>
  returns the delta after clamping: \<open>clamp(currentScore + rawDelta, 0, 100) - currentScore\<close>,
  where the raw delta is the table value of the action times the damping factors of the
  specification, the decay formula for \<open>decay\<close>, and 0 for an unknown action. The
  statement holds for every real score, so in particular for those in \<open>[0,100]\<close>.
\<close>

theorem calculate_change_post_clamp:
  "calculate_change action current_score c
     = spec_clamp (current_score + spec_raw_delta action current_score (ctx_or_empty c)) 0 100
       - current_score"
proof (cases "map_of POSITIVE_FACTORS action")
  case (Some f)
  then have "action \<in> fst ` set POSITIVE_FACTORS"
    using map_of_None_iff [of POSITIVE_FACTORS action] by simp
  with Some show ?thesis
    by (simp add: calculate_change_def spec_raw_delta_def spec_clamp_def
        spec_positive_delta_def Let_def)
next
  case None
  then have notpos: "action \<notin> fst ` set POSITIVE_FACTORS"
    using map_of_None_iff [of POSITIVE_FACTORS action] by simp
  show ?thesis
  proof (cases "map_of NEGATIVE_FACTORS action")
    case (Some f)
    then have "action \<in> fst ` set NEGATIVE_FACTORS"
      using map_of_None_iff [of NEGATIVE_FACTORS action] by simp
    with Some None notpos show ?thesis
      by (simp add: calculate_change_def spec_raw_delta_def spec_clamp_def
          spec_negative_delta_def Let_def)
  next
    case None2: None
    then have "action \<notin> fst ` set NEGATIVE_FACTORS"
      using map_of_None_iff [of NEGATIVE_FACTORS action] by simp
    with None None2 notpos show ?thesis
      by (simp add: calculate_change_def spec_raw_delta_def spec_clamp_def
          Let_def DECAY_RATE_def DECAY_THRESHOLD_DAYS_def)
  qed
qed

text \<open>
  C3, as stated, says that \<open>process_message\<close> returns the score from before the
  triggered actions. It does not: for a known user with score 20 the message \<open>love\<close>
  triggers \<open>compliment\<close> and the call returns 22. The local \<open>state\<close> of
  \<open>process_message\<close> is the very object that \<open>update\<close> mutates.
\<close>

theorem process_message_pre_update_score_counterexample:
  "user_score known_user_world ''u1'' = Some 20
   \<and> fst (fst (process_message ascii_lower noon_clock ''u1'' (u ''love'') None known_user_world)) = 22"
  by code_simp

text \<open>
  C3, amended. For every user id and message, the score that \<open>process_message\<close>
  returns is the score stored in the user's record when the call returns, that is after
  every triggered action (or \<open>base_message\<close>) and the decay check have been applied.
\<close>

theorem process_message_returns_stored_score:
  assumes "process_message lower clk uid message rt w = ((sc, fb, acts), w')"
  shows "user_score w' uid = Some sc"
proof -
  obtain st w1 where gs: "get_state clk uid w = (st, w1)"
    by (cases "get_state clk uid w") auto
  have "states w' uid = Some st"
    using process_message_score(1) [OF gs, of lower message rt] get_state_states [OF gs] assms
    by simp
  moreover have "sc = score (heap w' st)"
    using process_message_score(2) [OF gs, of lower message rt] assms by simp
  ultimately show ?thesis by (simp add: user_score_def)
qed

text \<open>The amended C3 at the input of the counterexample.\<close>

theorem process_message_returns_stored_score_witness:
  "process_message ascii_lower noon_clock ''u1'' (u ''love'') None known_user_world
     = ((22, [Glad_to_hear], [''compliment'']),
        snd (process_message ascii_lower noon_clock ''u1'' (u ''love'') None known_user_world))
   \<and> user_score (snd (process_message ascii_lower noon_clock ''u1'' (u ''love'') None
                      known_user_world)) ''u1'' = Some 22"
proof -
  have h: "process_message ascii_lower noon_clock ''u1'' (u ''love'') None known_user_world
     = ((22, [Glad_to_hear], [''compliment'']),
        snd (process_message ascii_lower noon_clock ''u1'' (u ''love'') None known_user_world))"
    using love_result by (simp add: prod_eq_iff)
  show ?thesis
    using h process_message_returns_stored_score [OF h] by simp
qed

text \<open>
  C4. The claim is that a user who has been inactive for at least two days gets a decay
  action first, before the actions of the message. The code checks decay last, after
  \<open>update\<close> has already set \<open>last_interaction\<close> to the present, so no decay is
  applied at all. Here user \<open>u1\<close> has been inactive for three days and is not sulking;
  the message \<open>hello\<close> triggers nothing; the call returns 20 with one interaction
  counted (that of \<open>base_message\<close>), where a decay of \<open>0.3 * (3 - 2 + 1)\<close> would have
  left 19.4 and counted two.
\<close>

theorem process_message_decay_not_applied:
  "states stale_user_world ''u1'' = Some 0
   \<and> \<not> is_ignoring (heap stale_user_world 0)
   \<and> td_days (stale_clock (now_calls stale_user_world) - last_interaction (heap stale_user_world 0)) = 3
   \<and> score (heap stale_user_world 0) = 20
   \<and> fst (fst (process_message ascii_lower stale_clock ''u1'' (u ''hello'') None stale_user_world)) = 20
   \<and> interaction_count (heap (snd (process_message ascii_lower stale_clock ''u1'' (u ''hello'') None stale_user_world)) 0) = 1"
  by code_simp

text \<open>
  C5. The sulk. The flag \<open>is_ignoring\<close> and the deadline \<open>ignore_until\<close> go together
  in every record reached by \<open>update\<close> calls from the initial system. For one
  \<open>update\<close> call on any system, with \<open>r\<close> the user's record and \<open>w1\<close> the system
  after \<open>get_state\<close>: if the score moves by \<open>-5\<close> or less and the score (the new one,
  which the code tests, or the old one) is below 50, then afterwards \<open>is_ignoring\<close>
  holds and \<open>ignore_until\<close> is the last clock reading of the call plus 30 minutes;
  and if flag and deadline go together and the clock reads less than \<open>ignore_until\<close>,
  the call returns the current score with the still-angry message and changes no record.
\<close>

theorem update_sulk:
  "sulk_consistent (run_updates clk calls init_world) v
   \<and> (get_state clk uid w = (r, w1) \<and> update clk uid action c w = ((sc, fb), w') \<longrightarrow>
        (sc - score (heap w1 r) \<le> -5 \<and> (sc < 50 \<or> score (heap w1 r) < 50) \<longrightarrow>
           is_ignoring (heap w' r)
           \<and> ignore_until (heap w' r) = Some (clk (now_calls w' - 1) + timedelta_minutes 30)
           \<and> now_calls w1 < now_calls w')
      \<and> (\<forall>t. sulk_consistent w uid \<and> ignore_until (heap w1 r) = Some t
              \<and> clk (now_calls w1) < t \<longrightarrow>
           sc = score (heap w1 r) \<and> heap w' = heap w1 \<and> (\<exists>m. fb = Still_angry m)))"
proof (intro conjI impI allI)
  show "sulk_consistent (run_updates clk calls init_world) v"
    unfolding sulk_consistent_def
  proof (rule user_inv_run)
    show "is_ignoring (new_AffectionState x t) \<longleftrightarrow> ignore_until (new_AffectionState x t) \<noteq> None"
      for x t by (rule new_state_sulk)
    show "is_ignoring (heap (snd (update clk x a d y)) q)
            \<longleftrightarrow> ignore_until (heap (snd (update clk x a d y)) q) \<noteq> None"
      if "get_state clk x y = (q, y1)"
        "is_ignoring (heap y1 q) \<longleftrightarrow> ignore_until (heap y1 q) \<noteq> None"
      for x a d y q y1
      using that by (rule update_sulk_step)
    show "user_inv (\<lambda>s. is_ignoring s \<longleftrightarrow> ignore_until s \<noteq> None) init_world v"
      by (rule user_inv_init)
  qed
next
  assume h: "get_state clk uid w = (r, w1) \<and> update clk uid action c w = ((sc, fb), w')"
    and trig: "sc - score (heap w1 r) \<le> -5 \<and> (sc < 50 \<or> score (heap w1 r) < 50)"
  from h have gs: "get_state clk uid w = (r, w1)"
    and sc: "fst (fst (update clk uid action c w)) = sc"
    and w': "snd (update clk uid action c w) = w'" by simp_all
  from trig have d: "fst (fst (update clk uid action c w)) - score (heap w1 r) \<le> -5"
    and l: "fst (fst (update clk uid action c w)) < 50 \<or> score (heap w1 r) < 50"
    by (simp_all add: sc)
  from update_sulk_trigger [OF gs d l]
  show "is_ignoring (heap w' r)"
    and "ignore_until (heap w' r) = Some (clk (now_calls w' - 1) + timedelta_minutes 30)"
    and "now_calls w1 < now_calls w'"
    by (simp_all add: w')
next
  fix t
  assume h: "get_state clk uid w = (r, w1) \<and> update clk uid action c w = ((sc, fb), w')"
    and s: "sulk_consistent w uid \<and> ignore_until (heap w1 r) = Some t \<and> clk (now_calls w1) < t"
  from h have gs: "get_state clk uid w = (r, w1)"
    and sc: "fst (fst (update clk uid action c w)) = sc"
    and fb: "snd (fst (update clk uid action c w)) = fb"
    and w': "snd (update clk uid action c w) = w'" by simp_all
  have "user_inv (\<lambda>s. is_ignoring s \<longleftrightarrow> ignore_until s \<noteq> None) (snd (get_state clk uid w)) uid"
  proof (rule user_inv_get_state)
    show "is_ignoring (new_AffectionState uid x) \<longleftrightarrow> ignore_until (new_AffectionState uid x) \<noteq> None"
      for x by (rule new_state_sulk)
    show "user_inv (\<lambda>s. is_ignoring s \<longleftrightarrow> ignore_until s \<noteq> None) w uid"
      using s by (simp add: sulk_consistent_def)
  qed
  then have ign: "is_ignoring (heap w1 r)"
    using gs get_state_states [OF gs] s by (simp add: user_inv_def)
  from s have until: "ignore_until (heap w1 r) = Some t" and early: "clk (now_calls w1) < t"
    by simp_all
  from update_while_sulking [OF gs ign until early, of action c]
  show "sc = score (heap w1 r)" and "heap w' = heap w1" and "\<exists>m. fb = Still_angry m"
    by (simp_all add: sc fb w')
qed

text \<open>
  C5 on a run: a new user sends an insult (20 to 7) and sulks until 30 minutes after
  the third clock reading; a gift sent right after changes nothing.
\<close>

theorem update_sulk_witness:
  "get_state noon_clock ''u1'' init_world = (0, known_user_world)
   \<and> update noon_clock ''u1'' ''insult'' None init_world = ((7, Fall_big), sulking_world)
   \<and> 7 - score (heap known_user_world 0) \<le> -5
   \<and> is_ignoring (heap sulking_world 0)
   \<and> ignore_until (heap sulking_world 0) = Some (noon_clock 2 + timedelta_minutes 30)
   \<and> sulk_consistent sulking_world ''u1''
   \<and> get_state noon_clock ''u1'' sulking_world = (0, sulking_world)
   \<and> noon_clock (now_calls sulking_world) < noon_clock 2 + timedelta_minutes 30
   \<and> update noon_clock ''u1'' ''gift'' None sulking_world
       = ((7, Still_angry 29), snd (update noon_clock ''u1'' ''gift'' None sulking_world))
   \<and> heap (snd (update noon_clock ''u1'' ''gift'' None sulking_world)) = heap sulking_world"
proof -
  have "fst (get_state noon_clock ''u1'' init_world) = 0" by code_simp
  then have gs: "get_state noon_clock ''u1'' init_world = (0, known_user_world)"
    by (simp add: known_user_world_def prod_eq_iff)
  have "fst (update noon_clock ''u1'' ''insult'' None init_world) = (7, Fall_big)"
    by code_simp
  then have up: "update noon_clock ''u1'' ''insult'' None init_world = ((7, Fall_big), sulking_world)"
    by (simp add: sulking_world_def prod_eq_iff)
  have old: "score (heap known_user_world 0) = 20" by code_simp
  have calls: "now_calls sulking_world = 3" by code_simp
  have st: "states sulking_world ''u1'' = Some 0" by code_simp
  then have gs2: "get_state noon_clock ''u1'' sulking_world = (0, sulking_world)"
    by (rule get_state_known)
  have "fst (update noon_clock ''u1'' ''gift'' None sulking_world) = (7, Still_angry 29)"
    by code_simp
  then have up2: "update noon_clock ''u1'' ''gift'' None sulking_world
       = ((7, Still_angry 29), snd (update noon_clock ''u1'' ''gift'' None sulking_world))"
    by (simp add: prod_eq_iff)
  have first: "is_ignoring (heap sulking_world 0)
     \<and> ignore_until (heap sulking_world 0) = Some (noon_clock 2 + timedelta_minutes 30)"
    using update_sulk [where clk = noon_clock and calls = "[]" and v = "''u1''"
        and w = init_world and uid = "''u1''" and action = "''insult''" and c = None
        and r = 0 and ?w1.0 = known_user_world and sc = 7 and fb = Fall_big
        and w' = sulking_world]
      gs up old calls
    by simp
  have cons: "sulk_consistent sulking_world ''u1''"
    using update_sulk [where clk = noon_clock
        and calls = "[(''u1'', ''insult'', None)]" and v = "''u1''"]
    by (simp add: sulking_world_def)
  have early: "noon_clock (now_calls sulking_world) < noon_clock 2 + timedelta_minutes 30"
    by (simp add: calls noon_clock_def timedelta_minutes_def)
  have second: "heap (snd (update noon_clock ''u1'' ''gift'' None sulking_world)) = heap sulking_world"
    using update_sulk [where clk = noon_clock and calls = "[]" and v = "''u1''"
        and w = sulking_world and uid = "''u1''" and action = "''gift''" and c = None
        and r = 0 and ?w1.0 = sulking_world and sc = 7 and fb = "Still_angry 29"
        and w' = "snd (update noon_clock ''u1'' ''gift'' None sulking_world)"]
      gs2 up2 first cons early
    by simp
  show ?thesis
    using gs up old first cons gs2 early up2 second by simp
qed

text \<open>
  C6. The two consecutive counters. After any run of \<open>update\<close> calls on the initial
  system at most one of them is nonzero in the record of any user \<open>v\<close>, and one more
  \<open>update\<close> keeps it so. In one \<open>update\<close> call a positive delta (returned score
  above the old one) increments \<open>consecutive_positive\<close> and resets
  \<open>consecutive_negative\<close>, a negative delta does the converse, and a zero delta changes
  neither.
\<close>

theorem update_counters_exclusive:
  "counters_exclusive (run_updates clk calls init_world) v
   \<and> (counters_exclusive w v \<longrightarrow> counters_exclusive (snd (update clk uid action c w)) v)
   \<and> (get_state clk uid w = (r, w1) \<and> update clk uid action c w = ((sc, fb), w') \<longrightarrow>
        (sc > score (heap w1 r) \<longrightarrow>
           consecutive_positive (heap w' r) = consecutive_positive (heap w1 r) + 1
           \<and> consecutive_negative (heap w' r) = 0)
      \<and> (sc < score (heap w1 r) \<longrightarrow>
           consecutive_negative (heap w' r) = consecutive_negative (heap w1 r) + 1
           \<and> consecutive_positive (heap w' r) = 0)
      \<and> (sc = score (heap w1 r) \<longrightarrow>
           consecutive_positive (heap w' r) = consecutive_positive (heap w1 r)
           \<and> consecutive_negative (heap w' r) = consecutive_negative (heap w1 r)))"
proof (intro conjI)
  show "counters_exclusive (run_updates clk calls init_world) v"
    unfolding counters_exclusive_def
  proof (rule user_inv_run)
    show "consecutive_positive (new_AffectionState x t) = 0
          \<or> consecutive_negative (new_AffectionState x t) = 0" for x t
      by (rule new_state_counters)
    show "consecutive_positive (heap (snd (update clk x a d y)) q) = 0
          \<or> consecutive_negative (heap (snd (update clk x a d y)) q) = 0"
      if "get_state clk x y = (q, y1)"
        "consecutive_positive (heap y1 q) = 0 \<or> consecutive_negative (heap y1 q) = 0"
      for x a d y q y1
      using that by (rule update_exclusive_step)
    show "user_inv (\<lambda>s. consecutive_positive s = 0 \<or> consecutive_negative s = 0) init_world v"
      by (rule user_inv_init)
  qed
next
  show "counters_exclusive w v \<longrightarrow> counters_exclusive (snd (update clk uid action c w)) v"
  proof
    assume inv: "counters_exclusive w v"
    show "counters_exclusive (snd (update clk uid action c w)) v"
      unfolding counters_exclusive_def
    proof (rule user_inv_update)
      show "consecutive_positive (new_AffectionState uid t) = 0
            \<or> consecutive_negative (new_AffectionState uid t) = 0" for t
        by (rule new_state_counters)
      show "consecutive_positive (heap (snd (update clk uid action c w)) q) = 0
            \<or> consecutive_negative (heap (snd (update clk uid action c w)) q) = 0"
        if "get_state clk uid w = (q, y1)"
          "consecutive_positive (heap y1 q) = 0 \<or> consecutive_negative (heap y1 q) = 0"
        for q y1
        using that by (rule update_exclusive_step)
      show "user_inv (\<lambda>s. consecutive_positive s = 0 \<or> consecutive_negative s = 0) w v"
        using inv by (simp add: counters_exclusive_def)
    qed
  qed
next
  show "get_state clk uid w = (r, w1) \<and> update clk uid action c w = ((sc, fb), w') \<longrightarrow>
        (sc > score (heap w1 r) \<longrightarrow>
           consecutive_positive (heap w' r) = consecutive_positive (heap w1 r) + 1
           \<and> consecutive_negative (heap w' r) = 0)
      \<and> (sc < score (heap w1 r) \<longrightarrow>
           consecutive_negative (heap w' r) = consecutive_negative (heap w1 r) + 1
           \<and> consecutive_positive (heap w' r) = 0)
      \<and> (sc = score (heap w1 r) \<longrightarrow>
           consecutive_positive (heap w' r) = consecutive_positive (heap w1 r)
           \<and> consecutive_negative (heap w' r) = consecutive_negative (heap w1 r))"
  proof
    assume h: "get_state clk uid w = (r, w1) \<and> update clk uid action c w = ((sc, fb), w')"
    then have gs: "get_state clk uid w = (r, w1)" by simp
    from h have sc: "fst (fst (update clk uid action c w)) = sc"
      and w': "snd (update clk uid action c w) = w'" by simp_all
    show "(sc > score (heap w1 r) \<longrightarrow>
           consecutive_positive (heap w' r) = consecutive_positive (heap w1 r) + 1
           \<and> consecutive_negative (heap w' r) = 0)
      \<and> (sc < score (heap w1 r) \<longrightarrow>
           consecutive_negative (heap w' r) = consecutive_negative (heap w1 r) + 1
           \<and> consecutive_positive (heap w' r) = 0)
      \<and> (sc = score (heap w1 r) \<longrightarrow>
           consecutive_positive (heap w' r) = consecutive_positive (heap w1 r)
           \<and> consecutive_negative (heap w' r) = consecutive_negative (heap w1 r))"
      using update_counters_step [OF gs, of action c] by (simp add: sc w')
  qed
qed

text \<open>C6 for a compliment by a new user: the counters become 1 and 0.\<close>

theorem update_counters_exclusive_witness:
  "counters_exclusive init_world ''u1''
   \<and> get_state noon_clock ''u1'' init_world = (0, known_user_world)
   \<and> update noon_clock ''u1'' ''compliment'' None init_world
       = ((22, Rise), snd (update noon_clock ''u1'' ''compliment'' None init_world))
   \<and> 22 > score (heap known_user_world 0)
   \<and> consecutive_positive (heap (snd (update noon_clock ''u1'' ''compliment'' None init_world)) 0) = 1
   \<and> consecutive_negative (heap (snd (update noon_clock ''u1'' ''compliment'' None init_world)) 0) = 0
   \<and> counters_exclusive (snd (update noon_clock ''u1'' ''compliment'' None init_world)) ''u1''"
proof -
  have ci: "counters_exclusive init_world ''u1''"
    by (simp add: counters_exclusive_def user_inv_def init_world_def)
  have "fst (get_state noon_clock ''u1'' init_world) = 0" by code_simp
  then have gs: "get_state noon_clock ''u1'' init_world = (0, known_user_world)"
    by (simp add: known_user_world_def prod_eq_iff)
  have "fst (update noon_clock ''u1'' ''compliment'' None init_world) = (22, Rise)"
    by code_simp
  then have up: "update noon_clock ''u1'' ''compliment'' None init_world
       = ((22, Rise), snd (update noon_clock ''u1'' ''compliment'' None init_world))"
    by (simp add: prod_eq_iff)
  have old: "score (heap known_user_world 0) = 20"
    and cp: "consecutive_positive (heap known_user_world 0) = 0"
    by code_simp+
  show ?thesis
    using update_counters_exclusive [where clk = noon_clock and calls = "[]" and v = "''u1''"
        and w = init_world and uid = "''u1''" and action = "''compliment''" and c = None
        and r = 0 and ?w1.0 = known_user_world and sc = 22 and fb = Rise
        and w' = "snd (update noon_clock ''u1'' ''compliment'' None init_world)"]
      ci gs up old cp
    by simp
qed

text \<open>
  C7. Keywords are sought in the lower-cased text. If it contains one of the
  other-person keywords, the result is \<open>mention_other_girl\<close> with \<open>-5\<close>, whatever
  positive keywords it holds. Otherwise, with more negative than positive keywords
  matching, the result is the negative action \<open>rude\<close> with a magnitude of at most 5,
  the cap; and with as many negative as positive ones, none included, the result is
  \<open>neutral\<close> with 0.
\<close>

theorem analyze_message_sentiment_priority:
  "((\<exists>k \<in> set other_girl_words. \<exists>p s. lower message = p @ k @ s) \<longrightarrow>
       analyze_message_sentiment lower message = (''mention_other_girl'', -5)
       \<and> map_of NEGATIVE_FACTORS ''mention_other_girl'' = Some (-5))
   \<and> (\<not> (\<exists>k \<in> set other_girl_words. \<exists>p s. lower message = p @ k @ s)
        \<and> count_in negative_words (lower message) > count_in positive_words (lower message) \<longrightarrow>
       fst (analyze_message_sentiment lower message) = ''rude''
       \<and> map_of NEGATIVE_FACTORS ''rude'' = Some (-5)
       \<and> snd (analyze_message_sentiment lower message) < 0
       \<and> \<bar>snd (analyze_message_sentiment lower message)\<bar> \<le> 5)
   \<and> (\<not> (\<exists>k \<in> set other_girl_words. \<exists>p s. lower message = p @ k @ s)
        \<and> count_in negative_words (lower message) = count_in positive_words (lower message) \<longrightarrow>
       analyze_message_sentiment lower message = (''neutral'', 0))"
proof (intro conjI impI)
  assume "\<exists>k \<in> set other_girl_words. \<exists>p s. lower message = p @ k @ s"
  then have "count_in other_girl_words (lower message) > 0"
    by (simp only: other_girl_hit)
  then show "analyze_message_sentiment lower message = (''mention_other_girl'', -5)"
    by (simp add: analyze_message_sentiment_def Let_def)
next
  show "map_of NEGATIVE_FACTORS ''mention_other_girl'' = Some (-5)"
    by (simp add: NEGATIVE_FACTORS_def)
next
  show "map_of NEGATIVE_FACTORS ''rude'' = Some (-5)"
    by (simp add: NEGATIVE_FACTORS_def)
next
  assume h: "\<not> (\<exists>k \<in> set other_girl_words. \<exists>p s. lower message = p @ k @ s)
        \<and> count_in negative_words (lower message) > count_in positive_words (lower message)"
  then have no: "\<not> count_in other_girl_words (lower message) > 0"
    by (simp only: other_girl_hit) simp
  have nonneg: "0 \<le> count_in positive_words (lower message)"
    by (simp add: count_in_def)
  from h no show "fst (analyze_message_sentiment lower message) = ''rude''"
    by (simp add: analyze_message_sentiment_def Let_def)
  from h no nonneg show "snd (analyze_message_sentiment lower message) < 0"
    by (simp add: analyze_message_sentiment_def Let_def)
  from h no nonneg show "\<bar>snd (analyze_message_sentiment lower message)\<bar> \<le> 5"
    by (simp add: analyze_message_sentiment_def Let_def)
next
  assume h: "\<not> (\<exists>k \<in> set other_girl_words. \<exists>p s. lower message = p @ k @ s)
        \<and> count_in negative_words (lower message) = count_in positive_words (lower message)"
  then have no: "\<not> count_in other_girl_words (lower message) > 0"
    by (simp only: other_girl_hit) simp
  from h no show "analyze_message_sentiment lower message = (''neutral'', 0)"
    by (simp add: analyze_message_sentiment_def Let_def)
qed

text \<open>C7 on three messages, one for each case.\<close>

theorem analyze_message_sentiment_priority_witness:
  "(\<exists>k \<in> set other_girl_words. \<exists>p s. ascii_lower (u ''I LOVE my Ex'') = p @ k @ s)
   \<and> count_in positive_words (ascii_lower (u ''I LOVE my Ex'')) = 1
   \<and> analyze_message_sentiment ascii_lower (u ''I LOVE my Ex'') = (''mention_other_girl'', -5)
   \<and> \<not> (\<exists>k \<in> set other_girl_words. \<exists>p s. ascii_lower (u ''so boring and bad'') = p @ k @ s)
   \<and> count_in negative_words (ascii_lower (u ''so boring and bad''))
       > count_in positive_words (ascii_lower (u ''so boring and bad''))
   \<and> fst (analyze_message_sentiment ascii_lower (u ''so boring and bad'')) = ''rude''
   \<and> \<bar>snd (analyze_message_sentiment ascii_lower (u ''so boring and bad''))\<bar> \<le> 5
   \<and> \<not> (\<exists>k \<in> set other_girl_words. \<exists>p s. ascii_lower (u ''hello'') = p @ k @ s)
   \<and> count_in negative_words (ascii_lower (u ''hello''))
       = count_in positive_words (ascii_lower (u ''hello''))
   \<and> analyze_message_sentiment ascii_lower (u ''hello'') = (''neutral'', 0)"
proof -
  have "count_in other_girl_words (ascii_lower (u ''I LOVE my Ex'')) > 0" by code_simp
  then have a1: "\<exists>k \<in> set other_girl_words. \<exists>p s. ascii_lower (u ''I LOVE my Ex'') = p @ k @ s"
    by (simp only: other_girl_hit)
  have a2: "count_in positive_words (ascii_lower (u ''I LOVE my Ex'')) = 1" by code_simp
  have "\<not> count_in other_girl_words (ascii_lower (u ''so boring and bad'')) > 0" by code_simp
  then have b1: "\<not> (\<exists>k \<in> set other_girl_words. \<exists>p s. ascii_lower (u ''so boring and bad'') = p @ k @ s)"
    by (simp only: other_girl_hit) simp
  have b2: "count_in negative_words (ascii_lower (u ''so boring and bad''))
       > count_in positive_words (ascii_lower (u ''so boring and bad''))" by code_simp
  have "\<not> count_in other_girl_words (ascii_lower (u ''hello'')) > 0" by code_simp
  then have c1: "\<not> (\<exists>k \<in> set other_girl_words. \<exists>p s. ascii_lower (u ''hello'') = p @ k @ s)"
    by (simp only: other_girl_hit) simp
  have c2: "count_in negative_words (ascii_lower (u ''hello''))
       = count_in positive_words (ascii_lower (u ''hello''))" by code_simp
  have r1: "analyze_message_sentiment ascii_lower (u ''I LOVE my Ex'') = (''mention_other_girl'', -5)"
    using analyze_message_sentiment_priority [of ascii_lower "u ''I LOVE my Ex''"] a1 by blast
  have r2: "fst (analyze_message_sentiment ascii_lower (u ''so boring and bad'')) = ''rude''
            \<and> \<bar>snd (analyze_message_sentiment ascii_lower (u ''so boring and bad''))\<bar> \<le> 5"
    using analyze_message_sentiment_priority [of ascii_lower "u ''so boring and bad''"] b1 b2
    by blast
  have r3: "analyze_message_sentiment ascii_lower (u ''hello'') = (''neutral'', 0)"
    using analyze_message_sentiment_priority [of ascii_lower "u ''hello''"] c1 c2 by blast
  from a1 a2 r1 b1 b2 r2 c1 c2 r3 show ?thesis by blast
qed

text \<open>
  C10. For a user id the system does not know, \<open>get_state\<close> creates a record with
  score 20 (in the band \<open>ACQUAINTANCE\<close>), mood \<open>neutral\<close> of intensity 0.5, no sulk,
  and all counters 0, and registers it under the id; a later \<open>get_state\<close> for that id,
  at once or after any run of \<open>update\<close> calls, returns the same record and changes
  nothing.
\<close>

theorem get_state_lazy_default:
  assumes "states w uid = None" and "get_state clk uid w = (r, w1)"
  shows "states w1 uid = Some r
       \<and> user_id (heap w1 r) = uid
       \<and> score (heap w1 r) = 20
       \<and> get_level (score (heap w1 r)) = ACQUAINTANCE
       \<and> current_mood (heap w1 r) = ''neutral''
       \<and> mood_intensity (heap w1 r) = 0.5
       \<and> \<not> is_ignoring (heap w1 r)
       \<and> ignore_until (heap w1 r) = None
       \<and> interaction_count (heap w1 r) = 0
       \<and> consecutive_positive (heap w1 r) = 0
       \<and> consecutive_negative (heap w1 r) = 0
       \<and> total_messages (heap w1 r) = 0
       \<and> positive_interactions (heap w1 r) = 0
       \<and> negative_interactions (heap w1 r) = 0
       \<and> get_state clk2 uid w1 = (r, w1)
       \<and> get_state clk2 uid (run_updates clk3 calls w1) = (r, run_updates clk3 calls w1)"
  using get_state_fresh_fields [OF assms]
    get_state_known [OF run_updates_keeps_user [OF get_state_fresh_fields(1) [OF assms]]]
  by (simp add: new_AffectionState_def get_level_20)

text \<open>C10 for the first user of the initial system.\<close>

theorem get_state_lazy_default_witness:
  "states init_world ''u1'' = None
   \<and> get_state noon_clock ''u1'' init_world = (0, known_user_world)
   \<and> score (heap known_user_world 0) = 20
   \<and> get_state noon_clock ''u1'' known_user_world = (0, known_user_world)"
proof -
  have none: "states init_world ''u1'' = None" by (simp add: init_world_def)
  have "fst (get_state noon_clock ''u1'' init_world) = 0" by code_simp
  then have gs: "get_state noon_clock ''u1'' init_world = (0, known_user_world)"
    by (simp add: known_user_world_def prod_eq_iff)
  show ?thesis
    using get_state_lazy_default [OF none gs, of noon_clock noon_clock "[]"] none gs by simp
qed

text \<open>
  C8. The claim is that a buffer of capacity \<open>N\<close> holds the last \<open>N\<close> turns and that
  \<open>get_recent_context\<close> returns the last \<open>n\<close> turns. For \<open>N \<ge> 1\<close> and \<open>n \<ge> 1\<close>
  the code does so (\<open>add_turns_from_empty\<close>, \<open>get_recent_context_last\<close>). At 0 it
  does not: the slices \<open>[-max_turns:]\<close> and \<open>[-n_turns:]\<close> are then \<open>[0:]\<close>, the whole
  list. With capacity 0 one \<open>add_turn\<close> leaves one turn in the buffer, and
  \<open>get_recent_context\<close> with \<open>n = 0\<close> returns the turn that is stored.
\<close>

theorem add_turn_capacity_zero:
  "buffer (add_turn h 1 2 ''u1'' (u ''hi'') (u ''hello'') None None (ShortTermMemory_init 0)) ''u1''
     = [new_turn h 1 2 ''u1'' (u ''hi'') (u ''hello'') None None]
   \<and> get_recent_context
         (add_turn h 1 2 ''u1'' (u ''hi'') (u ''hello'') None None (ShortTermMemory_init 3)) ''u1'' 0
     = [new_turn h 1 2 ''u1'' (u ''hi'') (u ''hello'') None None]"
  by (simp add: add_turn_def get_recent_context_def buffer_def ShortTermMemory_init_def
      slice_from_def Let_def)

text \<open>
  C9. The claim is that a second integration of the same insights changes nothing and
  adds no duplicate. \<open>integrate_insights\<close> compares each content with the list read
  from the file, and the file does not always give back what was written: a content
  \<open>a\<close>, U+0085, \<open>b\<close> is read back as \<open>a b\<close>. So after the first integration the
  list holds \<open>a b\<close>, the second integration does not find the content in it and
  appends it again, and the list read after that holds \<open>a b\<close> twice. Where the
  file gives back the document written, the second integration changes nothing
  (\<open>integrate_insights_again\<close>); a content that the list holds is not added and one
  that it does not hold is appended once (\<open>integrate_insights_present\<close>,
  \<open>integrate_data_absent\<close>, \<open>merge_bucket_appends\<close>).
\<close>

theorem integrate_insights_duplicates:
  "load_learned_knowledge yaml_read_back
     (integrate_insights yaml_written yaml_read_back [nel_fact] None) ''user_facts''
     = Some [[97, 32, 98]]
   \<and> load_learned_knowledge yaml_read_back
       (integrate_insights yaml_written yaml_read_back [nel_fact]
          (integrate_insights yaml_written yaml_read_back [nel_fact] None)) ''user_facts''
     = Some [[97, 32, 98], [97, 32, 98]]"
  by code_simp

end
